theory Spec2Isabelle
  imports Complex_Main "HOL-Library.Sublist"
begin

section \<open>JavaScript values\<close>

text \<open>
  The content script stores whatever value a message or the preference store hands it
  in \<open>config.fullMapHeight\<close> and later branches on its truthiness. Numbers are exact
  rationals (zoom levels such as 4.5 are dyadic, so the subtraction of the script is exact).
\<close>

datatype jsval = Undefined | Null | JBool bool | JNum rat | JStr string

fun truthy :: "jsval \<Rightarrow> bool" where
  "truthy Undefined = False"
| "truthy Null = False"
| "truthy (JBool b) = b"
| "truthy (JNum n) = (n \<noteq> 0)"
| "truthy (JStr s) = (s \<noteq> [])"

text \<open>How a function call of the script ends: normally, or with a thrown error.\<close>

datatype completion = Normal | Throw string

section \<open>Constants of the script\<close>

definition ZOOM_ADJUSTMENT :: rat where
  "ZOOM_ADJUSTMENT = 1 / 2"

definition MIN_ZOOM_LEVEL :: rat where
  "MIN_ZOOM_LEVEL = 1"

definition STYLE_ID :: string where
  "STYLE_ID = ''inat-map-enhancer-styles''"

definition MARKER_CLASS :: string where
  "MARKER_CLASS = ''inat-map-enhanced''"

section \<open>The host page: mapping library objects\<close>

text \<open>
  The mapping library is a collaborator of the host page. A map object is modelled as a
  recording object: each setter stores its argument and is appended to the log
  \<open>calls\<close>; \<open>getZoom\<close> returns a number and \<open>getCenter\<close> an object. A property
  listed in \<open>absent\<close> is not a function (the script tests this with \<open>typeof\<close>, and
  calling it throws); a method listed in \<open>throwing\<close> throws when called.
\<close>

type_synonym latlng = "rat \<times> rat"

datatype lmethod =
  GetZoom | SetZoom | GetCenter | PanTo | InvalidateSize | SetMaxBounds | SetMinZoom | EachLayer

datatype call =
  CSetZoom rat bool
| CPanTo latlng bool
| CInvalidateSize bool bool
| CSetMaxBounds latlng latlng
| CSetMinZoom rat
| CEachLayer

record layer =
  has_options :: bool
  has_setUrl :: bool
  noWrap :: bool

record leaflet_map =
  zoom :: rat
  center :: latlng
  minZoom :: rat
  maxBounds :: "(latlng \<times> latlng) option"
  layers :: "layer list"
  absent :: "lmethod list"
  throwing :: "lmethod list"
  calls :: "call list"

definition is_function :: "leaflet_map \<Rightarrow> lmethod \<Rightarrow> bool" where
  "is_function m f = (f \<notin> set (absent m))"

definition throws :: "leaflet_map \<Rightarrow> lmethod \<Rightarrow> bool" where
  "throws m f = (f \<in> set (absent m) \<or> f \<in> set (throwing m))"

definition setZoom :: "rat \<Rightarrow> bool \<Rightarrow> leaflet_map \<Rightarrow> leaflet_map" where
  "setZoom z animate m = m\<lparr>zoom := z, calls := calls m @ [CSetZoom z animate]\<rparr>"

definition panTo :: "latlng \<Rightarrow> bool \<Rightarrow> leaflet_map \<Rightarrow> leaflet_map" where
  "panTo c animate m = m\<lparr>center := c, calls := calls m @ [CPanTo c animate]\<rparr>"

definition invalidateSize :: "bool \<Rightarrow> bool \<Rightarrow> leaflet_map \<Rightarrow> leaflet_map" where
  "invalidateSize animate pan m = m\<lparr>calls := calls m @ [CInvalidateSize animate pan]\<rparr>"

definition setMaxBounds :: "latlng \<Rightarrow> latlng \<Rightarrow> leaflet_map \<Rightarrow> leaflet_map" where
  "setMaxBounds sw ne m = m\<lparr>maxBounds := Some (sw, ne), calls := calls m @ [CSetMaxBounds sw ne]\<rparr>"

definition setMinZoom :: "rat \<Rightarrow> leaflet_map \<Rightarrow> leaflet_map" where
  "setMinZoom z m = m\<lparr>minZoom := z, calls := calls m @ [CSetMinZoom z]\<rparr>"

text \<open>
  The callback the script hands to \<open>eachLayer\<close>:
  \<open>if (layer.options && layer.setUrl) layer.options.noWrap = true\<close>.
\<close>

definition markNoWrap :: "layer \<Rightarrow> layer" where
  "markNoWrap l = (if has_options l \<and> has_setUrl l then l\<lparr>noWrap := True\<rparr> else l)"

definition eachLayer :: "(layer \<Rightarrow> layer) \<Rightarrow> leaflet_map \<Rightarrow> leaflet_map" where
  "eachLayer f m = m\<lparr>layers := map f (layers m), calls := calls m @ [CEachLayer]\<rparr>"

text \<open>
  The part of \<open>window\<close> the script reads: \<open>window.L\<close>, \<open>window.L.map\<close>,
  the registry \<open>window.L.map._instances\<close> (from identifiers to the addresses of map
  objects), whether \<open>window.L.latLng\<close> and \<open>window.L.latLngBounds\<close> are functions,
  and \<open>window.GLOBALS\<close> with its \<open>map\<close> property.
\<close>

record window =
  win_L :: bool
  L_map :: bool
  L_instances :: "(nat \<rightharpoonup> nat) option"
  L_latLng :: bool
  L_latLngBounds :: bool
  GLOBALS :: "nat option option"

text \<open>What an instance lookup returns: \<open>null\<close>, \<open>undefined\<close> or a map object.\<close>

datatype ref = RNull | RUndefined | RObj nat

section \<open>The host page: document and location\<close>

text \<open>
  An element of the document: its identity \<open>nid\<close>, tag, \<open>id\<close> attribute, class list,
  the expando \<open>_leaflet_id\<close> and the inline \<open>style.height\<close>. The text of a style
  element is not modelled.
\<close>

record node =
  nid :: nat
  tag :: string
  el_id :: string
  classes :: "string list"
  leaflet_id :: "nat option"
  style_height :: string

text \<open>
  The document: its elements in tree order, whether \<open>document.head\<close> and
  \<open>document.documentElement\<close> exist, the class list of \<open>document.body\<close>
  (\<open>None\<close> when the body is \<open>null\<close>) and the identity of the next created element.
  A created style element is put last: no query of the script but
  \<open>getElementById STYLE_ID\<close> matches it.
\<close>

record document =
  nodes :: "node list"
  head :: bool
  documentElement :: bool
  body :: "string list option"
  next_nid :: nat

record location =
  href :: string
  pathname :: string
  search :: string

definition getElementById :: "string \<Rightarrow> document \<Rightarrow> node option" where
  "getElementById i d = find (\<lambda>n. el_id n = i) (nodes d)"

definition querySelector :: "(node \<Rightarrow> bool) \<Rightarrow> document \<Rightarrow> node option" where
  "querySelector sel d = find sel (nodes d)"

definition contains :: "document \<Rightarrow> nat \<Rightarrow> bool" where
  "contains d h = (h \<in> set (map nid (nodes d)))"

definition element_of :: "document \<Rightarrow> nat \<Rightarrow> node option" where
  "element_of d h = find (\<lambda>n. nid n = h) (nodes d)"

text \<open>\<open>element.remove()\<close> for an element found in the document.\<close>

definition remove_node :: "node \<Rightarrow> document \<Rightarrow> document" where
  "remove_node n d = d\<lparr>nodes := remove1 n (nodes d)\<rparr>"

text \<open>The selectors \<open>'#map'\<close> and \<open>'#map, .leaflet-container'\<close>.\<close>

definition SELECTORS_MAP :: "node \<Rightarrow> bool" where
  "SELECTORS_MAP n = (el_id n = ''map'')"

definition map_or_leaflet_container :: "node \<Rightarrow> bool" where
  "map_or_leaflet_container n = (el_id n = ''map'' \<or> ''leaflet-container'' \<in> set (classes n))"

definition classList_add :: "string \<Rightarrow> string list \<Rightarrow> string list" where
  "classList_add c cs = (if c \<in> set cs then cs else cs @ [c])"

definition classList_remove :: "string \<Rightarrow> string list \<Rightarrow> string list" where
  "classList_remove c cs = removeAll c cs"

definition style_count :: "document \<Rightarrow> nat" where
  "style_count d = length (filter (\<lambda>n. el_id n = STYLE_ID) (nodes d))"

section \<open>Page eligibility\<close>

text \<open>
  \<open>isMapViewPage\<close> of the second content script (src/unnamed/part_000): the path is
  compared with the two listing paths. Its diagnostic \<open>console.log\<close> is not modelled.
\<close>

definition isMapViewPage :: "location \<Rightarrow> bool" where
  "isMapViewPage loc = (pathname loc = ''/observations'' \<or> pathname loc = ''/observations/'')"

text \<open>
  The test \<open>init\<close> of src/content.js makes instead:
  \<open>window.location.href.includes('inaturalist.org/observations')\<close>.
\<close>

definition str_includes :: "string \<Rightarrow> string \<Rightarrow> bool" where
  "str_includes s pat = sublist pat s"

definition hrefIsObservations :: "location \<Rightarrow> bool" where
  "hrefIsObservations loc = str_includes (href loc) ''inaturalist.org/observations''"

section \<open>Resolving the map instance\<close>

text \<open>
  \<open>getLeafletMapInstance\<close>, the same in both content scripts. \<open>_leaflet_id\<close> is
  truthy when it is a number other than 0.
\<close>

definition getLeafletMapInstance :: "window \<Rightarrow> node option \<Rightarrow> ref" where
  "getLeafletMapInstance w mapElement =
     (case mapElement of
        None \<Rightarrow> RNull
      | Some e \<Rightarrow>
          if \<not> win_L w then RNull
          else
            (case (leaflet_id e, L_instances w) of
               (Some i, Some reg) \<Rightarrow>
                 if i \<noteq> 0 \<and> L_map w
                 then (case reg i of None \<Rightarrow> RUndefined | Some a \<Rightarrow> RObj a)
                 else (case GLOBALS w of Some (Some a) \<Rightarrow> RObj a | _ \<Rightarrow> RNull)
             | _ \<Rightarrow> (case GLOBALS w of Some (Some a) \<Rightarrow> RObj a | _ \<Rightarrow> RNull)))"

section \<open>The state of a page session\<close>

text \<open>
  \<open>originalStyles\<close> of the script; \<open>None\<close> is \<open>null\<close>.
\<close>

record original_styles =
  orig_zoom :: "rat option"
  orig_center :: "latlng option"
  mapHeight :: "string option"

text \<open>The callbacks the script hands to \<open>requestAnimationFrame\<close>.\<close>

datatype callback = PostPaint | InitApply

text \<open>
  The host page (\<open>document\<close>, \<open>location\<close>, \<open>window\<close>, the store \<open>heap\<close> of map
  objects by address, \<open>chrome.runtime.id\<close>) and the script's module variables:
  \<open>originalStyles\<close>, \<open>config.fullMapHeight\<close>, \<open>domCache.map\<close> (the identity of the
  cached element), \<open>stylesApplied\<close>, \<open>mapFound\<close>. The remaining fields are what
  the script has registered with the browser: the queued animation-frame callbacks, the
  debounce timer, the mutation observer, the pending read of the preference store, and
  the number of \<open>resize\<close> events it has dispatched. Console output is not modelled.
\<close>

record state =
  document :: document
  location :: location
  window :: window
  heap :: "nat \<Rightarrow> leaflet_map"
  runtime_id :: string
  originalStyles :: original_styles
  fullMapHeight :: jsval
  domCache_map :: "nat option"
  stylesApplied :: bool
  mapFound :: bool
  frames :: "callback list"
  timer :: bool
  observing :: bool
  storagePending :: bool
  resizes :: nat

section \<open>Functions shared by both content scripts\<close>

text \<open>
  \<open>getCachedElement\<close>; its only cache key in use is \<open>'map'\<close>. The cached element
  is kept while the document contains it, otherwise the selector is queried again.
\<close>

definition getCachedElement :: "(node \<Rightarrow> bool) \<Rightarrow> state \<Rightarrow> node option \<times> state" where
  "getCachedElement sel s =
     (case domCache_map s of
        Some h \<Rightarrow>
          if contains (document s) h then (element_of (document s) h, s)
          else (querySelector sel (document s),
                s\<lparr>domCache_map := map_option nid (querySelector sel (document s))\<rparr>)
      | None \<Rightarrow>
          (querySelector sel (document s),
           s\<lparr>domCache_map := map_option nid (querySelector sel (document s))\<rparr>))"

text \<open>
  \<open>injectStyles\<close>: an element with the identifier is removed, a new style element is
  created and appended to the head, or to the root element when there is no head; with
  neither, reading \<open>appendChild\<close> of \<open>null\<close> throws.
\<close>

definition injectStyles :: "string \<Rightarrow> document \<Rightarrow> completion \<times> document" where
  "injectStyles i d =
     (let d1 = (case getElementById i d of Some existingStyle \<Rightarrow> remove_node existingStyle d
                | None \<Rightarrow> d);
          style = \<lparr>nid = next_nid d1, tag = ''style'', el_id = i, classes = [],
                   leaflet_id = None, style_height = []\<rparr>;
          d2 = d1\<lparr>next_nid := Suc (next_nid d1)\<rparr>
      in if head d2 then (Normal, d2\<lparr>nodes := nodes d2 @ [style]\<rparr>)
         else if documentElement d2 then (Normal, d2\<lparr>nodes := nodes d2 @ [style]\<rparr>)
         else (Throw ''TypeError: document.documentElement is null'', d2))"

text \<open>
  The \<open>try\<close> block of \<open>applyMapBounds\<close>. A thrown error is caught and logged: the
  calls made before it keep their effect. The block starts by building the corners and
  the bounds with \<open>window.L.latLng\<close> and \<open>window.L.latLngBounds\<close>.
\<close>

definition applyMapBounds_try :: "window \<Rightarrow> leaflet_map \<Rightarrow> leaflet_map" where
  "applyMapBounds_try w m =
     (if \<not> L_latLng w then m
      else if \<not> L_latLngBounds w then m
      else if throws m SetMaxBounds then m
      else
        let m1 = setMaxBounds (- 85, - 180) (85, 180) m in
        if throws m1 SetMinZoom then m1
        else
          let m2 = setMinZoom 2 m1 in
          if throws m2 EachLayer then m2 else eachLayer markNoWrap m2)"

definition applyMapBounds :: "state \<Rightarrow> state" where
  "applyMapBounds s0 =
     (case getCachedElement SELECTORS_MAP s0 of
        (None, s) \<Rightarrow> s
      | (Some mapElement, s) \<Rightarrow>
          (case getLeafletMapInstance (window s) (Some mapElement) of
             RObj a \<Rightarrow>
               if is_function (heap s a) SetMaxBounds
               then s\<lparr>heap := (heap s)(a := applyMapBounds_try (window s) (heap s a))\<rparr>
               else s
           | _ \<Rightarrow> s))"

text \<open>
  The \<open>try\<close> block of \<open>adjustMapZoom\<close>: the viewport is stored when no zoom is
  stored yet, then the zoom is lowered by one step when it exceeds \<open>MIN_ZOOM_LEVEL\<close>,
  then the size is invalidated.
\<close>

definition adjustMapZoom_try :: "leaflet_map \<Rightarrow> original_styles \<Rightarrow> leaflet_map \<times> original_styles" where
  "adjustMapZoom_try m os =
     (if orig_zoom os = None \<and> throws m GetZoom then (m, os)
      else if orig_zoom os = None \<and> throws m GetCenter then (m, os\<lparr>orig_zoom := Some (zoom m)\<rparr>)
      else
        let os' = (if orig_zoom os = None
                   then os\<lparr>orig_zoom := Some (zoom m), orig_center := Some (center m)\<rparr>
                   else os)
        in
          if throws m GetZoom then (m, os')
          else
            let currentZoom = zoom m in
            if MIN_ZOOM_LEVEL < currentZoom then
              (if throws m SetZoom then (m, os')
               else
                 let m' = setZoom (currentZoom - ZOOM_ADJUSTMENT) False m in
                 if throws m' InvalidateSize then (m', os')
                 else (invalidateSize False False m', os'))
            else if throws m InvalidateSize then (m, os')
            else (invalidateSize False False m, os'))"

text \<open>
  \<open>adjustMapZoom\<close>. Its last call, \<open>repositionObservationCards\<close>, only writes inline
  style properties of the side panel and of the map controls, which nothing modelled
  here reads; it is left out.
\<close>

definition adjustMapZoom :: "state \<Rightarrow> state" where
  "adjustMapZoom s0 =
     (case getCachedElement SELECTORS_MAP s0 of
        (None, s) \<Rightarrow> s
      | (Some mapElement, s) \<Rightarrow>
          (case getLeafletMapInstance (window s) (Some mapElement) of
             RObj a \<Rightarrow>
               if is_function (heap s a) GetZoom
               then
                 (case adjustMapZoom_try (heap s a) (originalStyles s) of
                    (m', os') \<Rightarrow> s\<lparr>heap := (heap s)(a := m'), originalStyles := os'\<rparr>)
               else s
           | _ \<Rightarrow> s))"

text \<open>
  The \<open>try\<close> block of \<open>removeFullMapHeight\<close>, entered when a zoom is stored.
\<close>

definition restore_try :: "original_styles \<Rightarrow> leaflet_map \<Rightarrow> leaflet_map" where
  "restore_try os m =
     (case orig_zoom os of
        None \<Rightarrow> m
      | Some z \<Rightarrow>
          if throws m SetZoom then m
          else
            let m1 = setZoom z False m in
            (case orig_center os of
               Some c \<Rightarrow>
                 if throws m1 PanTo then m1
                 else
                   let m2 = panTo c False m1 in
                   if throws m2 InvalidateSize then m2 else invalidateSize False False m2
             | None \<Rightarrow>
                 if throws m1 InvalidateSize then m1 else invalidateSize False False m1))"

text \<open>The part of \<open>removeFullMapHeight\<close> after the flag is cleared, the same in both scripts.\<close>

definition restoreViewport :: "state \<Rightarrow> state" where
  "restoreViewport s0 =
     (if orig_zoom (originalStyles s0) \<noteq> None then
        (case getCachedElement SELECTORS_MAP s0 of
           (None, s) \<Rightarrow> s
         | (Some mapElement, s) \<Rightarrow>
             (case getLeafletMapInstance (window s) (Some mapElement) of
                RObj a \<Rightarrow>
                  if is_function (heap s a) SetZoom
                  then s\<lparr>heap := (heap s)(a := restore_try (originalStyles s) (heap s a))\<rparr>
                  else s
              | _ \<Rightarrow> s))
      else s0)"

section \<open>The content script src/content.js\<close>

definition applyFullMapHeight :: "state \<Rightarrow> completion \<times> state" where
  "applyFullMapHeight s =
     (if stylesApplied s then (Normal, s)
      else
        (case injectStyles STYLE_ID (document s) of
           (Throw e, d) \<Rightarrow> (Throw e, s\<lparr>document := d\<rparr>)
         | (Normal, d) \<Rightarrow>
             (Normal, s\<lparr>document := d, stylesApplied := True, frames := frames s @ [PostPaint]\<rparr>)))"

definition removeFullMapHeight :: "state \<Rightarrow> completion \<times> state" where
  "removeFullMapHeight s =
     (let s1 = (case getElementById STYLE_ID (document s) of
                  Some styleElement \<Rightarrow> s\<lparr>document := remove_node styleElement (document s)\<rparr>
                | None \<Rightarrow> s);
          s2 = s1\<lparr>stylesApplied := False\<rparr>
      in (Normal, restoreViewport s2))"

section \<open>The second content script (src/unnamed/part_000)\<close>

definition applyFullMapHeight2 :: "state \<Rightarrow> completion \<times> state" where
  "applyFullMapHeight2 s =
     (if stylesApplied s then (Normal, s)
      else if \<not> isMapViewPage (location s) then (Normal, s)
      else
        (case querySelector map_or_leaflet_container (document s) of
           None \<Rightarrow> (Normal, s)
         | Some mapElement \<Rightarrow>
             (case body (document s) of
                None \<Rightarrow> (Throw ''TypeError: document.body is null'', s)
              | Some cs \<Rightarrow>
                  (case injectStyles STYLE_ID
                          ((document s)\<lparr>body := Some (classList_add MARKER_CLASS cs)\<rparr>) of
                     (Throw e, d) \<Rightarrow> (Throw e, s\<lparr>document := d\<rparr>)
                   | (Normal, d) \<Rightarrow>
                       (Normal, s\<lparr>document := d, stylesApplied := True,
                                  frames := frames s @ [PostPaint]\<rparr>)))))"

definition removeFullMapHeight2 :: "state \<Rightarrow> completion \<times> state" where
  "removeFullMapHeight2 s =
     (let s1 = (case getElementById STYLE_ID (document s) of
                  Some styleElement \<Rightarrow> s\<lparr>document := remove_node styleElement (document s)\<rparr>
                | None \<Rightarrow> s)
      in
        (case body (document s1) of
           None \<Rightarrow> (Throw ''TypeError: document.body is null'', s1)
         | Some cs \<Rightarrow>
             (let s2 = s1\<lparr>document := (document s1)\<lparr>body := Some (classList_remove MARKER_CLASS cs)\<rparr>,
                          stylesApplied := False\<rparr>
              in (Normal, restoreViewport s2))))"

section \<open>The message listener\<close>

text \<open>
  The listener has the same text in both scripts and calls the script's own
  \<open>applyFullMapHeight\<close> and \<open>removeFullMapHeight\<close>, here the parameters \<open>ap\<close> and
  \<open>rm\<close>. \<open>sender.id\<close> is \<open>None\<close> when the sender has no identity.
\<close>

record message =
  action :: jsval
  enabled :: jsval

datatype response = Success | Failure string | StateReply jsval

definition listener ::
  "(state \<Rightarrow> completion \<times> state) \<Rightarrow> (state \<Rightarrow> completion \<times> state) \<Rightarrow>
   message \<Rightarrow> string option \<Rightarrow> state \<Rightarrow> response \<times> state" where
  "listener ap rm msg sender_id s =
     (if (case sender_id of None \<Rightarrow> True | Some i \<Rightarrow> i = [] \<or> i \<noteq> runtime_id s)
      then (Failure ''Invalid sender'', s)
      else if action msg = JStr ''toggleFullMapHeight'' then
        (let s1 = s\<lparr>fullMapHeight := enabled msg\<rparr> in
         (case (if truthy (fullMapHeight s1) then ap s1 else rm s1) of
            (Normal, s2) \<Rightarrow> (Success, s2)
          | (Throw e, s2) \<Rightarrow> (Failure e, s2)))
      else if action msg = JStr ''getState'' then (StateReply (fullMapHeight s), s)
      else (Failure ''Unknown action'', s))"

definition onMessage :: "message \<Rightarrow> string option \<Rightarrow> state \<Rightarrow> response \<times> state" where
  "onMessage = listener applyFullMapHeight removeFullMapHeight"

definition onMessage2 :: "message \<Rightarrow> string option \<Rightarrow> state \<Rightarrow> response \<times> state" where
  "onMessage2 = listener applyFullMapHeight2 removeFullMapHeight2"

section \<open>A page session of src/content.js\<close>

text \<open>
  The callback \<open>applyFullMapHeight\<close> queues for the next frame: bounds, zoom, and a
  synthetic \<open>resize\<close> event.
\<close>

definition postPaint :: "state \<Rightarrow> state" where
  "postPaint s =
     (let s1 = applyMapBounds s;
          s2 = adjustMapZoom s1
      in s2\<lparr>resizes := Suc (resizes s2)\<rparr>)"

text \<open>
  The callback \<open>init\<close> queues:
  \<open>if (config.fullMapHeight && getCachedElement(SELECTORS.MAP, 'map')) applyFullMapHeight()\<close>.
  An error thrown in a frame callback ends that callback only.
\<close>

definition initApply :: "state \<Rightarrow> state" where
  "initApply s0 =
     (if truthy (fullMapHeight s0) then
        (case getCachedElement SELECTORS_MAP s0 of
           (None, s) \<Rightarrow> s
         | (Some mapElement, s) \<Rightarrow> snd (applyFullMapHeight s))
      else s0)"

fun run_callback :: "callback \<Rightarrow> state \<Rightarrow> state" where
  "run_callback PostPaint s = postPaint s"
| "run_callback InitApply s = initApply s"

text \<open>
  \<open>loadUserPreferences\<close>: the read of the preference store is started; when starting
  it throws, the styles are applied. The callback of the read gets
  \<open>chrome.runtime.lastError\<close> and the stored value, \<open>None\<close> when the key is not stored.
\<close>

definition loadUserPreferences :: "bool \<Rightarrow> state \<Rightarrow> completion \<times> state" where
  "loadUserPreferences get_throws s =
     (if get_throws then applyFullMapHeight s else (Normal, s\<lparr>storagePending := True\<rparr>))"

definition storageCallback :: "bool \<Rightarrow> jsval option \<Rightarrow> state \<Rightarrow> completion \<times> state" where
  "storageCallback lastError result s =
     (if lastError then applyFullMapHeight s
      else
        (case result of
           Some v \<Rightarrow>
             (let s1 = s\<lparr>fullMapHeight := v\<rparr> in
              if truthy (fullMapHeight s1) then applyFullMapHeight s1 else removeFullMapHeight s1)
         | None \<Rightarrow> applyFullMapHeight s))"

text \<open>
  The debounced handler: a call of the wrapper (re)starts the one timer; when the timer
  fires, \<open>if (config.fullMapHeight) adjustMapZoom()\<close> runs.
\<close>

definition debouncedMapHandler :: "state \<Rightarrow> state" where
  "debouncedMapHandler s = s\<lparr>timer := True\<rparr>"

definition mapHandler :: "state \<Rightarrow> state" where
  "mapHandler s = (if truthy (fullMapHeight s) then adjustMapZoom s else s)"

text \<open>
  The mutation observer. An added node qualifies when it is an element that is the map
  container, carries the class of the library's root, or has a descendant that does. The
  inner loop stops at the first qualifying node of a mutation; the outer loop goes on.
\<close>

record added_node =
  is_element :: bool
  added_id :: string
  added_classes :: "string list"
  has_leaflet_descendant :: bool

record mutation =
  is_childList :: bool
  addedNodes :: "added_node list"

definition qualifies :: "added_node \<Rightarrow> bool" where
  "qualifies n =
     (is_element n \<and>
      (added_id n = ''map'' \<or> ''leaflet-container'' \<in> set (added_classes n) \<or>
       has_leaflet_descendant n))"

fun scanAddedNodes :: "added_node list \<Rightarrow> state \<Rightarrow> state" where
  "scanAddedNodes [] s = s"
| "scanAddedNodes (n # ns) s =
     (if qualifies n then debouncedMapHandler (s\<lparr>mapFound := True\<rparr>)
      else scanAddedNodes ns s)"

fun scanMutations :: "mutation list \<Rightarrow> state \<Rightarrow> state" where
  "scanMutations [] s = s"
| "scanMutations (m # ms) s =
     scanMutations ms (if is_childList m then scanAddedNodes (addedNodes m) s else s)"

definition observerCallback :: "mutation list \<Rightarrow> state \<Rightarrow> state" where
  "observerCallback mutations s =
     (if mapFound s \<and> stylesApplied s then s else scanMutations mutations s)"

text \<open>
  \<open>init\<close>: the inline height of the map container is stored, the observer is attached
  to the first of \<open>.container, .ObservationsMapView, main\<close> or else to the body (with
  neither, \<open>observe\<close> throws), the preferences are loaded, and on a page whose address
  contains \<open>inaturalist.org/observations\<close> the callback \<open>InitApply\<close> is queued.
\<close>

definition mainContainer :: "document \<Rightarrow> bool" where
  "mainContainer d =
     (find (\<lambda>n. ''container'' \<in> set (classes n) \<or> ''ObservationsMapView'' \<in> set (classes n) \<or>
                 tag n = ''main'') (nodes d) \<noteq> None \<or> body d \<noteq> None)"

definition init :: "bool \<Rightarrow> state \<Rightarrow> completion \<times> state" where
  "init get_throws s0 =
     (case getCachedElement SELECTORS_MAP s0 of
        (mapContainer, s1) \<Rightarrow>
          (let s2 = (case mapContainer of
                       Some e \<Rightarrow> s1\<lparr>originalStyles :=
                                     (originalStyles s1)\<lparr>mapHeight := Some (style_height e)\<rparr>\<rparr>
                     | None \<Rightarrow> s1)
           in
             if \<not> mainContainer (document s2)
             then (Throw ''TypeError: observe target is not a Node'', s2)
             else
               (case loadUserPreferences get_throws (s2\<lparr>observing := True\<rparr>) of
                  (Throw e, s3) \<Rightarrow> (Throw e, s3)
                | (Normal, s3) \<Rightarrow>
                    if hrefIsObservations (location s3)
                    then (Normal, s3\<lparr>frames := frames s3 @ [InitApply]\<rparr>)
                    else (Normal, s3))))"

text \<open>
  The turns of the event loop in a session: the script's own entry points, and the
  changes the host page and the user make to the document, the address, \<open>window\<close> and
  the map objects. A frame runs the callbacks queued before it.
\<close>

datatype event =
  Init bool
| StorageResult bool "jsval option"
| Frame
| Mutations "mutation list"
| TimerFires
| Message message "string option"
| SetDocument document
| SetLocation location
| SetWindow window
| SetHeap "nat \<Rightarrow> leaflet_map"

fun step :: "event \<Rightarrow> state \<Rightarrow> state" where
  "step (Init get_throws) s = snd (init get_throws s)"
| "step (StorageResult lastError result) s =
     (if storagePending s
      then snd (storageCallback lastError result (s\<lparr>storagePending := False\<rparr>))
      else s)"
| "step Frame s = fold run_callback (frames s) (s\<lparr>frames := []\<rparr>)"
| "step (Mutations ms) s = (if observing s then observerCallback ms s else s)"
| "step TimerFires s = (if timer s then mapHandler (s\<lparr>timer := False\<rparr>) else s)"
| "step (Message msg sender_id) s = snd (onMessage msg sender_id s)"
| "step (SetDocument d) s = s\<lparr>document := d\<rparr>"
| "step (SetLocation l) s = s\<lparr>location := l\<rparr>"
| "step (SetWindow w) s = s\<lparr>window := w\<rparr>"
| "step (SetHeap h) s = s\<lparr>heap := h\<rparr>"

fun run :: "event list \<Rightarrow> state \<Rightarrow> state" where
  "run [] s = s"
| "run (e # es) s = run es (step e s)"


text \<open>The map object the script resolves in a state, for stating properties.\<close>

definition resolved :: "state \<Rightarrow> ref" where
  "resolved s = getLeafletMapInstance (window s) (fst (getCachedElement SELECTORS_MAP s))"

text \<open>
  The usual situation of a listing page: the map container \<open>e\<close> is the element
  \<open>'#map'\<close> selects and the first element of its identity, the element cache is empty
  or holds it, and the lookup from it gives the map object at address \<open>a\<close>.
\<close>

definition map_ready :: "state \<Rightarrow> node \<Rightarrow> nat \<Rightarrow> bool" where
  "map_ready s e a =
     (querySelector SELECTORS_MAP (document s) = Some e \<and>
      element_of (document s) (nid e) = Some e \<and>
      (domCache_map s = None \<or> domCache_map s = Some (nid e)) \<and>
      getLeafletMapInstance (window s) (Some e) = RObj a)"

section \<open>Example pages\<close>

text \<open>A map object at the given zoom, with every method present and none throwing.\<close>

definition demo_map :: "rat \<Rightarrow> leaflet_map" where
  "demo_map z =
     \<lparr>zoom = z, center = (10, 20), minZoom = 0, maxBounds = None,
      layers = [\<lparr>has_options = True, has_setUrl = True, noWrap = False\<rparr>],
      absent = [], throwing = [], calls = []\<rparr>"

definition demo_element :: node where
  "demo_element =
     \<lparr>nid = 0, tag = ''div'', el_id = ''map'', classes = [''leaflet-container''],
      leaflet_id = Some 7, style_height = ''400px''\<rparr>"

text \<open>
  The listing page \<open>/observations\<close> at load: the map container is in the document, the
  library's registry holds its map object (address 3, zoom 5), nothing is applied yet.
\<close>

definition demo_page :: state where
  "demo_page =
     \<lparr>document = \<lparr>nodes = [demo_element], head = True, documentElement = True,
                  body = Some [], next_nid = 1\<rparr>,
      location = \<lparr>href = ''https://www.inaturalist.org/observations?place_id=1'',
                  pathname = ''/observations'', search = ''?place_id=1''\<rparr>,
      window = \<lparr>win_L = True, L_map = True, L_instances = Some [7 \<mapsto> 3],
                L_latLng = True, L_latLngBounds = True, GLOBALS = None\<rparr>,
      heap = (\<lambda>a. demo_map 5),
      runtime_id = ''abcdefghijklmnop'',
      originalStyles = \<lparr>orig_zoom = None, orig_center = None, mapHeight = None\<rparr>,
      fullMapHeight = JBool True,
      domCache_map = None,
      stylesApplied = False,
      mapFound = False,
      frames = [],
      timer = False,
      observing = False,
      storagePending = False,
      resizes = 0\<rparr>"

text \<open>
  An observation page \<open>/observations/123\<close>: the address contains
  \<open>inaturalist.org/observations\<close>, there is no map container.
\<close>

definition item_page :: state where
  "item_page =
     demo_page
       \<lparr>document := \<lparr>nodes = [], head = True, documentElement = True, body = Some [],
                     next_nid = 0\<rparr>,
        location := \<lparr>href = ''https://www.inaturalist.org/observations/123'',
                     pathname = ''/observations/123'', search = []\<rparr>\<rparr>"

definition toggle :: "bool \<Rightarrow> message" where
  "toggle b = \<lparr>action = JStr ''toggleFullMapHeight'', enabled = JBool b\<rparr>"

definition getState :: message where
  "getState = \<lparr>action = JStr ''getState'', enabled = Undefined\<rparr>"

text \<open>The listing page before the body element exists.\<close>

definition early_page :: state where
  "early_page = demo_page\<lparr>document := (document demo_page)\<lparr>body := None\<rparr>\<rparr>"

text \<open>The listing page with the map at zoom 1.25.\<close>

definition low_zoom_page :: state where
  "low_zoom_page = demo_page\<lparr>heap := (\<lambda>a. demo_map (5 / 4))\<rparr>"

text \<open>The user zooms the map object at address \<open>a\<close>.\<close>

definition userZoom :: "nat \<Rightarrow> rat \<Rightarrow> state \<Rightarrow> state" where
  "userZoom a z s = s\<lparr>heap := (heap s)(a := (heap s a)\<lparr>zoom := z\<rparr>)\<rparr>"

text \<open>
  The listing page under the second content script after one cycle: the styles were
  applied, the frame ran, the styles were removed, and the user has zoomed in to 8.
\<close>

definition revisited_page :: state where
  "revisited_page =
     userZoom 3 8 (snd (removeFullMapHeight2 (step Frame (snd (applyFullMapHeight2 demo_page)))))"

text \<open>The stored viewport: the \<open>zoom\<close> and \<open>center\<close> of \<open>originalStyles\<close>.\<close>

definition snapshot :: "state \<Rightarrow> rat option \<times> latlng option" where
  "snapshot s = (orig_zoom (originalStyles s), orig_center (originalStyles s))"

text \<open>One call of \<open>applyFullMapHeight\<close> followed by the next animation frame.\<close>

definition applyThenFrame :: "state \<Rightarrow> state" where
  "applyThenFrame s = step Frame (snd (applyFullMapHeight s))"

text \<open>
  What the script's own lookup gives in a state: \<open>getCachedElement\<close> returns the
  element \<open>e\<close>, from the cache or from a new query, and \<open>getLeafletMapInstance\<close>
  gives for it the map object at address \<open>a\<close>.
\<close>

definition resolves :: "state \<Rightarrow> node \<Rightarrow> nat \<Rightarrow> bool" where
  "resolves s e a =
     (fst (getCachedElement SELECTORS_MAP s) = Some e \<and>
      getLeafletMapInstance (window s) (Some e) = RObj a)"

text \<open>The identities of the elements of a document are distinct.\<close>

definition unique_ids :: "document \<Rightarrow> bool" where
  "unique_ids d = distinct (map nid (nodes d))"

text \<open>
  The host page has mounted the map again: the stylesheet of the script is in the
  document, and the map container is a new element for the same map object.
\<close>

definition remounted_document :: document where
  "remounted_document =
     \<lparr>nodes = [\<lparr>nid = 1, tag = ''style'', el_id = STYLE_ID, classes = [], leaflet_id = None,
                  style_height = []\<rparr>,
               \<lparr>nid = 2, tag = ''div'', el_id = ''map'', classes = [''leaflet-container''],
                  leaflet_id = Some 7, style_height = []\<rparr>],
      head = True, documentElement = True, body = Some [], next_nid = 3\<rparr>"

definition remounted_element :: node where
  "remounted_element =
     \<lparr>nid = 2, tag = ''div'', el_id = ''map'', classes = [''leaflet-container''],
      leaflet_id = Some 7, style_height = []\<rparr>"

section \<open>Frame lemmas: what the operations leave alone\<close>

lemma getCachedElement_frame:
  "fullMapHeight (snd (getCachedElement sel s)) = fullMapHeight s"
  "runtime_id (snd (getCachedElement sel s)) = runtime_id s"
  "originalStyles (snd (getCachedElement sel s)) = originalStyles s"
  "document (snd (getCachedElement sel s)) = document s"
  "window (snd (getCachedElement sel s)) = window s"
  "heap (snd (getCachedElement sel s)) = heap s"
  "stylesApplied (snd (getCachedElement sel s)) = stylesApplied s"
  "frames (snd (getCachedElement sel s)) = frames s"
  by (simp_all add: getCachedElement_def split: option.splits)

lemma restoreViewport_frame:
  "fullMapHeight (restoreViewport s) = fullMapHeight s"
  "runtime_id (restoreViewport s) = runtime_id s"
  "originalStyles (restoreViewport s) = originalStyles s"
  "document (restoreViewport s) = document s"
  "stylesApplied (restoreViewport s) = stylesApplied s"
  "frames (restoreViewport s) = frames s"
  using getCachedElement_frame[of SELECTORS_MAP s]
  by (cases "getCachedElement SELECTORS_MAP s";
      simp add: restoreViewport_def split: option.splits ref.splits)+

lemma applyFullMapHeight_frame:
  "fullMapHeight (snd (applyFullMapHeight s)) = fullMapHeight s"
  "runtime_id (snd (applyFullMapHeight s)) = runtime_id s"
  "originalStyles (snd (applyFullMapHeight s)) = originalStyles s"
  "heap (snd (applyFullMapHeight s)) = heap s"
  by (simp_all add: applyFullMapHeight_def split: prod.splits completion.splits)

lemma removeFullMapHeight_frame:
  "fullMapHeight (snd (removeFullMapHeight s)) = fullMapHeight s"
  "runtime_id (snd (removeFullMapHeight s)) = runtime_id s"
  "originalStyles (snd (removeFullMapHeight s)) = originalStyles s"
  by (simp_all add: removeFullMapHeight_def Let_def restoreViewport_frame split: option.splits)

lemma applyFullMapHeight2_frame:
  "fullMapHeight (snd (applyFullMapHeight2 s)) = fullMapHeight s"
  "runtime_id (snd (applyFullMapHeight2 s)) = runtime_id s"
  "originalStyles (snd (applyFullMapHeight2 s)) = originalStyles s"
  "heap (snd (applyFullMapHeight2 s)) = heap s"
  by (simp_all add: applyFullMapHeight2_def split: prod.splits completion.splits option.splits)

lemma removeFullMapHeight2_frame:
  "fullMapHeight (snd (removeFullMapHeight2 s)) = fullMapHeight s"
  "runtime_id (snd (removeFullMapHeight2 s)) = runtime_id s"
  "originalStyles (snd (removeFullMapHeight2 s)) = originalStyles s"
  by (simp_all add: removeFullMapHeight2_def Let_def restoreViewport_frame split: option.splits)

section \<open>The listener\<close>

lemma listener_invalid:
  "sender_id \<noteq> Some (runtime_id s) \<Longrightarrow>
   listener ap rm msg sender_id s = (Failure ''Invalid sender'', s)"
  by (auto simp add: listener_def split: option.splits)

lemma listener_unknown:
  "sender_id = Some (runtime_id s) \<Longrightarrow> runtime_id s \<noteq> [] \<Longrightarrow>
   action msg \<noteq> JStr ''toggleFullMapHeight'' \<Longrightarrow> action msg \<noteq> JStr ''getState'' \<Longrightarrow>
   listener ap rm msg sender_id s = (Failure ''Unknown action'', s)"
  by (simp add: listener_def)

lemma listener_toggle:
  assumes "sender_id = Some (runtime_id s)" "runtime_id s \<noteq> []"
    "action msg = JStr ''toggleFullMapHeight''"
  shows "listener ap rm msg sender_id s =
     (case (if truthy (enabled msg) then ap (s\<lparr>fullMapHeight := enabled msg\<rparr>)
            else rm (s\<lparr>fullMapHeight := enabled msg\<rparr>)) of
        (Normal, t) \<Rightarrow> (Success, t) | (Throw e, t) \<Rightarrow> (Failure e, t))"
  using assms by (simp add: listener_def Let_def)

lemma listener_getState:
  "sender_id = Some (runtime_id s) \<Longrightarrow> runtime_id s \<noteq> [] \<Longrightarrow>
   listener ap rm getState sender_id s = (StateReply (fullMapHeight s), s)"
  by (simp add: listener_def getState_def)

lemma listener_toggle_state:
  assumes "sender_id = Some (runtime_id s)" "runtime_id s \<noteq> []"
    "action msg = JStr ''toggleFullMapHeight''"
    "\<And>t. fullMapHeight (snd (ap t)) = fullMapHeight t"
    "\<And>t. fullMapHeight (snd (rm t)) = fullMapHeight t"
    "\<And>t. runtime_id (snd (ap t)) = runtime_id t"
    "\<And>t. runtime_id (snd (rm t)) = runtime_id t"
  shows "fullMapHeight (snd (listener ap rm msg sender_id s)) = enabled msg"
    and "runtime_id (snd (listener ap rm msg sender_id s)) = runtime_id s"
proof -
  let ?s1 = "s\<lparr>fullMapHeight := enabled msg\<rparr>"
  let ?r = "if truthy (enabled msg) then ap ?s1 else rm ?s1"
  have r: "fullMapHeight (snd ?r) = enabled msg" "runtime_id (snd ?r) = runtime_id s"
    using assms(4)[of ?s1] assms(5)[of ?s1] assms(6)[of ?s1] assms(7)[of ?s1] by simp_all
  have l: "listener ap rm msg sender_id s =
     (case ?r of (Normal, t) \<Rightarrow> (Success, t) | (Throw e, t) \<Rightarrow> (Failure e, t))"
    by (rule listener_toggle[OF assms(1-3)])
  show "fullMapHeight (snd (listener ap rm msg sender_id s)) = enabled msg"
    using r(1) unfolding l by (cases ?r) (auto split: completion.splits)
  show "runtime_id (snd (listener ap rm msg sender_id s)) = runtime_id s"
    using r(2) unfolding l by (cases ?r) (auto split: completion.splits)
qed

lemma demo_runtime_id: "runtime_id demo_page = ''abcdefghijklmnop''"
  by (simp add: demo_page_def)

lemma early_runtime_id: "runtime_id early_page = ''abcdefghijklmnop''"
  by (simp add: early_page_def demo_page_def)

text \<open>
  Claim C10. When the map element carries a library-assigned identifier (a number other
  than 0, as the library assigns them) and the library's registry exists,
  \<open>getLeafletMapInstance\<close> returns the registry's entry for the identifier,
  \<open>undefined\<close> when there is none, whatever \<open>window.GLOBALS\<close> holds. The global
  singleton is the result only when the element has no such identifier or the registry is
  absent. Without an element, or without the library global, the result is \<open>null\<close>.
\<close>

theorem getLeafletMapInstance_chain:
  "(leaflet_id e = Some i \<and> i \<noteq> 0 \<and> win_L w \<and> L_map w \<and> L_instances w = Some reg \<longrightarrow>
      getLeafletMapInstance w (Some e) = (case reg i of None \<Rightarrow> RUndefined | Some a \<Rightarrow> RObj a) \<and>
      getLeafletMapInstance (w\<lparr>GLOBALS := g\<rparr>) (Some e) = getLeafletMapInstance w (Some e))
   \<and> (win_L w \<and> (leaflet_id e = None \<or> leaflet_id e = Some 0 \<or> \<not> L_map w \<or> L_instances w = None) \<longrightarrow>
      getLeafletMapInstance w (Some e) = (case GLOBALS w of Some (Some a) \<Rightarrow> RObj a | _ \<Rightarrow> RNull))
   \<and> getLeafletMapInstance w None = RNull
   \<and> (\<not> win_L w \<longrightarrow> getLeafletMapInstance w me = RNull)"
  by (auto simp add: getLeafletMapInstance_def split: option.splits)

theorem getLeafletMapInstance_chain_witness:
  "getLeafletMapInstance (window demo_page) (Some demo_element) = RObj 3
   \<and> getLeafletMapInstance ((window demo_page)\<lparr>GLOBALS := Some (Some 4)\<rparr>)
        (Some (demo_element\<lparr>leaflet_id := Some 9\<rparr>)) = RUndefined
   \<and> getLeafletMapInstance ((window demo_page)\<lparr>GLOBALS := Some (Some 4)\<rparr>)
        (Some (demo_element\<lparr>leaflet_id := None\<rparr>)) = RObj 4
   \<and> getLeafletMapInstance ((window demo_page)\<lparr>GLOBALS := Some (Some 4)\<rparr>) None = RNull
   \<and> getLeafletMapInstance ((window demo_page)\<lparr>win_L := False\<rparr>) (Some demo_element) = RNull"
  using
    getLeafletMapInstance_chain[of demo_element 7 "window demo_page" "[7 \<mapsto> 3]" None None]
    getLeafletMapInstance_chain[of "demo_element\<lparr>leaflet_id := Some 9\<rparr>" 9
       "(window demo_page)\<lparr>GLOBALS := Some (Some 4)\<rparr>" "[7 \<mapsto> 3]" None None]
    getLeafletMapInstance_chain[of "demo_element\<lparr>leaflet_id := None\<rparr>" 0
       "(window demo_page)\<lparr>GLOBALS := Some (Some 4)\<rparr>" "[7 \<mapsto> 3]" None None]
    getLeafletMapInstance_chain[of demo_element 7 "(window demo_page)\<lparr>win_L := False\<rparr>"
       "[7 \<mapsto> 3]" None "Some demo_element"]
  by (simp add: demo_page_def demo_element_def)

text \<open>
  \<open>isMapViewPage\<close> of the second content script is true exactly when the path is
  \<open>/observations\<close> or \<open>/observations/\<close>; the query string and the rest of the
  address do not matter; a path with a further segment is not eligible.
\<close>

lemma isMapViewPage_exact:
  "(isMapViewPage loc \<longleftrightarrow> pathname loc = ''/observations'' \<or> pathname loc = ''/observations/'')
   \<and> isMapViewPage (loc\<lparr>search := q, href := h\<rparr>) = isMapViewPage loc
   \<and> (seg \<noteq> [] \<longrightarrow> \<not> isMapViewPage (loc\<lparr>pathname := ''/observations/'' @ seg\<rparr>))"
  by (simp add: isMapViewPage_def)

lemma isMapViewPage_examples:
  "isMapViewPage (location demo_page)
   \<and> isMapViewPage ((location demo_page)\<lparr>pathname := ''/observations/''\<rparr>)
   \<and> isMapViewPage ((location demo_page)\<lparr>search := ''?taxon_id=3&view=map'',
        href := ''https://www.inaturalist.org/observations?taxon_id=3&view=map''\<rparr>)
   \<and> \<not> isMapViewPage ((location demo_page)\<lparr>pathname := ''/observations/'' @ ''someuser''\<rparr>)
   \<and> \<not> isMapViewPage ((location demo_page)\<lparr>pathname := ''/observations/'' @ ''123''\<rparr>)"
  using
    isMapViewPage_exact[where loc = "location demo_page" and q = "''?taxon_id=3&view=map''"
      and h = "''https://www.inaturalist.org/observations?taxon_id=3&view=map''"
      and seg = "''someuser''"]
    isMapViewPage_exact[where loc = "(location demo_page)\<lparr>pathname := ''/observations/''\<rparr>"
      and q = "[]" and h = "[]" and seg = "''123''"]
    isMapViewPage_exact[where loc = "location demo_page" and q = "[]" and h = "[]" and seg = "''123''"]
  by (simp add: demo_page_def)

text \<open>
  Claim C7. A message whose sender identity is not the extension's own is answered
  \<open>{success: false, error: 'Invalid sender'}\<close>, and a message of a valid sender whose
  action is neither \<open>toggleFullMapHeight\<close> nor \<open>getState\<close> is answered
  \<open>{success: false, error: 'Unknown action'}\<close>; in both cases the state is unchanged.
  This holds for the listener of either content script.
\<close>

theorem listener_rejections:
  "(sender_id \<noteq> Some (runtime_id s) \<longrightarrow>
      onMessage msg sender_id s = (Failure ''Invalid sender'', s) \<and>
      onMessage2 msg sender_id s = (Failure ''Invalid sender'', s))
   \<and> (sender_id = Some (runtime_id s) \<and> runtime_id s \<noteq> [] \<and>
       action msg \<noteq> JStr ''toggleFullMapHeight'' \<and> action msg \<noteq> JStr ''getState'' \<longrightarrow>
      onMessage msg sender_id s = (Failure ''Unknown action'', s) \<and>
      onMessage2 msg sender_id s = (Failure ''Unknown action'', s))"
  by (simp add: onMessage_def onMessage2_def listener_invalid listener_unknown)

theorem listener_rejections_witness:
  "onMessage (toggle True) (Some ''another-extension'') demo_page =
     (Failure ''Invalid sender'', demo_page)
   \<and> onMessage (toggle True) None demo_page = (Failure ''Invalid sender'', demo_page)
   \<and> onMessage \<lparr>action = JStr ''bogus'', enabled = Undefined\<rparr> (Some ''abcdefghijklmnop'') demo_page =
     (Failure ''Unknown action'', demo_page)
   \<and> onMessage2 \<lparr>action = Undefined, enabled = JBool True\<rparr> (Some ''abcdefghijklmnop'') demo_page =
     (Failure ''Unknown action'', demo_page)"
  using
    listener_rejections[of "Some ''another-extension''" demo_page "toggle True"]
    listener_rejections[of None demo_page "toggle True"]
    listener_rejections[of "Some ''abcdefghijklmnop''" demo_page "\<lparr>action = JStr ''bogus'', enabled = Undefined\<rparr>"]
    listener_rejections[of "Some ''abcdefghijklmnop''" demo_page "\<lparr>action = Undefined, enabled = JBool True\<rparr>"]
  by (simp add: demo_runtime_id)

text \<open>
  Claim C9. For a \<open>toggleFullMapHeight\<close> request of a valid sender,
  \<open>config.fullMapHeight\<close> is set to the requested value before
  \<open>applyFullMapHeight\<close> or \<open>removeFullMapHeight\<close> runs on the updated state. After
  the request the flag holds the requested value, also when the operation threw and the
  answer is \<open>{success: false, error: ...}\<close>, and a following \<open>getState\<close> reports the
  requested value.
\<close>

theorem toggle_not_rolled_back:
  assumes "sender_id = Some (runtime_id s)" and "runtime_id s \<noteq> []"
    and "action msg = JStr ''toggleFullMapHeight''"
  shows
    "fullMapHeight (snd (onMessage msg sender_id s)) = enabled msg
     \<and> fullMapHeight (snd (onMessage2 msg sender_id s)) = enabled msg
     \<and> onMessage msg sender_id s =
         (case (if truthy (enabled msg) then applyFullMapHeight (s\<lparr>fullMapHeight := enabled msg\<rparr>)
                else removeFullMapHeight (s\<lparr>fullMapHeight := enabled msg\<rparr>)) of
            (Normal, t) \<Rightarrow> (Success, t) | (Throw e, t) \<Rightarrow> (Failure e, t))
     \<and> onMessage2 msg sender_id s =
         (case (if truthy (enabled msg) then applyFullMapHeight2 (s\<lparr>fullMapHeight := enabled msg\<rparr>)
                else removeFullMapHeight2 (s\<lparr>fullMapHeight := enabled msg\<rparr>)) of
            (Normal, t) \<Rightarrow> (Success, t) | (Throw e, t) \<Rightarrow> (Failure e, t))
     \<and> fst (onMessage getState sender_id (snd (onMessage msg sender_id s))) = StateReply (enabled msg)
     \<and> fst (onMessage2 getState sender_id (snd (onMessage2 msg sender_id s))) = StateReply (enabled msg)"
proof -
  have a: "fullMapHeight (snd (onMessage msg sender_id s)) = enabled msg"
       "runtime_id (snd (onMessage msg sender_id s)) = runtime_id s"
    unfolding onMessage_def
    by (rule listener_toggle_state[OF assms]; simp add: applyFullMapHeight_frame removeFullMapHeight_frame)+
  have b: "fullMapHeight (snd (onMessage2 msg sender_id s)) = enabled msg"
       "runtime_id (snd (onMessage2 msg sender_id s)) = runtime_id s"
    unfolding onMessage2_def
    by (rule listener_toggle_state[OF assms]; simp add: applyFullMapHeight2_frame removeFullMapHeight2_frame)+
  have c: "fst (onMessage getState sender_id (snd (onMessage msg sender_id s))) = StateReply (enabled msg)"
    using a assms(1,2) by (simp add: onMessage_def listener_getState)
  have d: "fst (onMessage2 getState sender_id (snd (onMessage2 msg sender_id s))) = StateReply (enabled msg)"
    using b assms(1,2) by (simp add: onMessage2_def listener_getState)
  show ?thesis
    using a(1) b(1) c d listener_toggle[OF assms]
    by (simp add: onMessage_def onMessage2_def)
qed

theorem toggle_not_rolled_back_witness:
  "fst (onMessage2 (toggle False) (Some ''abcdefghijklmnop'') early_page) =
     Failure ''TypeError: document.body is null''
   \<and> fullMapHeight early_page = JBool True
   \<and> fullMapHeight (snd (onMessage2 (toggle False) (Some ''abcdefghijklmnop'') early_page)) = JBool False
   \<and> fst (onMessage2 getState (Some ''abcdefghijklmnop'')
        (snd (onMessage2 (toggle False) (Some ''abcdefghijklmnop'') early_page))) = StateReply (JBool False)"
proof -
  have t: "removeFullMapHeight2 (early_page\<lparr>fullMapHeight := JBool False\<rparr>) =
       (Throw ''TypeError: document.body is null'', early_page\<lparr>fullMapHeight := JBool False\<rparr>)"
    by (simp add: removeFullMapHeight2_def early_page_def demo_page_def getElementById_def
        demo_element_def STYLE_ID_def)
  have f: "fullMapHeight early_page = JBool True"
    by (simp add: early_page_def demo_page_def)
  have h: "Some ''abcdefghijklmnop'' = Some (runtime_id early_page)" "runtime_id early_page \<noteq> []"
      "action (toggle False) = JStr ''toggleFullMapHeight''" "enabled (toggle False) = JBool False"
    by (simp_all add: early_runtime_id toggle_def)
  note th = toggle_not_rolled_back[OF h(1-3), unfolded h(4)]
  from th have c3: "fullMapHeight (snd (onMessage2 (toggle False) (Some ''abcdefghijklmnop'') early_page)) = JBool False"
    by blast
  from th have c4: "fst (onMessage2 getState (Some ''abcdefghijklmnop'')
        (snd (onMessage2 (toggle False) (Some ''abcdefghijklmnop'') early_page))) = StateReply (JBool False)"
    by blast
  from th have "onMessage2 (toggle False) (Some ''abcdefghijklmnop'') early_page =
         (case (if truthy (JBool False) then applyFullMapHeight2 (early_page\<lparr>fullMapHeight := JBool False\<rparr>)
                else removeFullMapHeight2 (early_page\<lparr>fullMapHeight := JBool False\<rparr>)) of
            (Normal, t) \<Rightarrow> (Success, t) | (Throw e, t) \<Rightarrow> (Failure e, t))"
    by blast
  then have c1: "fst (onMessage2 (toggle False) (Some ''abcdefghijklmnop'') early_page) =
     Failure ''TypeError: document.body is null''"
    by (simp add: t)
  show ?thesis using c1 f c3 c4 by blast
qed

section \<open>Queries on the element list\<close>

lemma find_remove1_other:
  "find P xs = Some e \<Longrightarrow> n \<noteq> e \<Longrightarrow> find P (remove1 n xs) = Some e"
  by (induction xs) (auto split: if_splits)


lemma find_Some_holds:
  "find P xs = Some e \<Longrightarrow> P e \<and> e \<in> set xs"
  by (induction xs) (auto split: if_splits)

lemma filter_remove1_Suc:
  "find P xs = Some n \<Longrightarrow> Suc (length (filter P (remove1 n xs))) = length (filter P xs)"
  by (induction xs) (auto split: if_splits dest: find_Some_holds)

lemma filter_remove1_found:
  "find P xs = Some n \<Longrightarrow> length (filter P (remove1 n xs)) = length (filter P xs) - 1"
  using filter_remove1_Suc[of P xs n] by simp

lemma filter_find_None:
  "find P xs = None \<Longrightarrow> filter P xs = []"
  by (induction xs) (auto split: if_splits)

section \<open>The singleton stylesheet\<close>



lemma remove_style_count:
  "style_count d \<le> 1 \<Longrightarrow> getElementById STYLE_ID d = Some n \<Longrightarrow>
   style_count (remove_node n d) = 0"
  by (simp add: style_count_def getElementById_def remove_node_def filter_remove1_found)

lemma no_style_count:
  "getElementById STYLE_ID d = None \<Longrightarrow> style_count d = 0"
  by (simp add: style_count_def getElementById_def filter_find_None)

section \<open>The map container stays resolved\<close>

lemma map_ready_cached:
  assumes "map_ready s e a"
  shows "getCachedElement SELECTORS_MAP s = (Some e, s\<lparr>domCache_map := Some (nid e)\<rparr>)"
proof -
  from assms have q: "querySelector SELECTORS_MAP (document s) = Some e"
    and el: "element_of (document s) (nid e) = Some e"
    and c: "domCache_map s = None \<or> domCache_map s = Some (nid e)"
    by (simp_all add: map_ready_def)
  from el have "e \<in> set (nodes (document s))"
    by (simp add: element_of_def find_Some_holds)
  then have "contains (document s) (nid e)"
    by (auto simp add: contains_def)
  with q el c show ?thesis
    by (auto simp add: getCachedElement_def)
qed

lemma map_ready_same_page:
  "map_ready s e a \<Longrightarrow> document t = document s \<Longrightarrow> window t = window s \<Longrightarrow>
   domCache_map t = domCache_map s \<or> domCache_map t = Some (nid e) \<Longrightarrow> map_ready t e a"
  by (auto simp add: map_ready_def)




section \<open>The map operations on a resolved map\<close>

lemma applyMapBounds_ready:
  assumes "map_ready s e a"
  shows "applyMapBounds s =
     s\<lparr>domCache_map := Some (nid e),
       heap := (heap s)(a := if is_function (heap s a) SetMaxBounds
                             then applyMapBounds_try (window s) (heap s a) else heap s a)\<rparr>"
proof -
  from assms have r: "getLeafletMapInstance (window s) (Some e) = RObj a"
    by (simp add: map_ready_def)
  show ?thesis
    by (simp add: applyMapBounds_def map_ready_cached[OF assms] r)
qed

lemma adjustMapZoom_ready:
  assumes "map_ready s e a"
  shows "adjustMapZoom s =
     s\<lparr>domCache_map := Some (nid e),
       heap := (heap s)(a := if is_function (heap s a) GetZoom
                             then fst (adjustMapZoom_try (heap s a) (originalStyles s)) else heap s a),
       originalStyles := (if is_function (heap s a) GetZoom
                          then snd (adjustMapZoom_try (heap s a) (originalStyles s))
                          else originalStyles s)\<rparr>"
proof -
  from assms have r: "getLeafletMapInstance (window s) (Some e) = RObj a"
    by (simp add: map_ready_def)
  show ?thesis
    by (simp add: adjustMapZoom_def map_ready_cached[OF assms] r split: prod.splits)
qed

lemma restoreViewport_ready:
  assumes "map_ready s e a" "orig_zoom (originalStyles s) \<noteq> None"
  shows "restoreViewport s =
     s\<lparr>domCache_map := Some (nid e),
       heap := (heap s)(a := if is_function (heap s a) SetZoom
                             then restore_try (originalStyles s) (heap s a) else heap s a)\<rparr>"
proof -
  from assms have r: "getLeafletMapInstance (window s) (Some e) = RObj a"
    by (simp add: map_ready_def)
  show ?thesis
    using assms(2) by (simp add: restoreViewport_def map_ready_cached[OF assms(1)] r)
qed

section \<open>The try blocks\<close>

lemma throws_setters [simp]:
  "throws (setZoom z b m) f = throws m f"
  "throws (panTo c b m) f = throws m f"
  "throws (invalidateSize b b' m) f = throws m f"
  "throws (setMaxBounds sw ne m) f = throws m f"
  "throws (setMinZoom z m) f = throws m f"
  "throws (eachLayer g m) f = throws m f"
  by (simp_all add: throws_def setZoom_def panTo_def invalidateSize_def setMaxBounds_def
      setMinZoom_def eachLayer_def)

lemma not_throws_is_function: "\<not> throws m f \<Longrightarrow> is_function m f"
  by (simp add: throws_def is_function_def)

lemma applyMapBounds_try_keeps:
  "zoom (applyMapBounds_try w m) = zoom m"
  "center (applyMapBounds_try w m) = center m"
  "throws (applyMapBounds_try w m) f = throws m f"
  by (simp_all add: applyMapBounds_try_def Let_def setMaxBounds_def setMinZoom_def eachLayer_def throws_def)

lemma applyMapBounds_try_done:
  "L_latLng w \<Longrightarrow> L_latLngBounds w \<Longrightarrow> \<not> throws m SetMaxBounds \<Longrightarrow> \<not> throws m SetMinZoom \<Longrightarrow>
   maxBounds (applyMapBounds_try w m) = Some ((- 85, - 180), (85, 180)) \<and>
   minZoom (applyMapBounds_try w m) = 2"
  by (simp add: applyMapBounds_try_def Let_def setMaxBounds_def setMinZoom_def eachLayer_def throws_def)

lemma adjustMapZoom_try_keeps_snapshot:
  "orig_zoom os \<noteq> None \<Longrightarrow> snd (adjustMapZoom_try m os) = os"
  by (cases "orig_zoom os") (simp_all add: adjustMapZoom_try_def Let_def)

lemma adjustMapZoom_try_captures:
  "orig_zoom os = None \<Longrightarrow> \<not> throws m GetZoom \<Longrightarrow> \<not> throws m GetCenter \<Longrightarrow>
   snd (adjustMapZoom_try m os) = os\<lparr>orig_zoom := Some (zoom m), orig_center := Some (center m)\<rparr>"
  by (simp add: adjustMapZoom_try_def Let_def)

lemma adjustMapZoom_try_keeps:
  "center (fst (adjustMapZoom_try m os)) = center m"
  "throws (fst (adjustMapZoom_try m os)) f = throws m f"
  "maxBounds (fst (adjustMapZoom_try m os)) = maxBounds m"
  "minZoom (fst (adjustMapZoom_try m os)) = minZoom m"
  by (simp_all add: adjustMapZoom_try_def Let_def setZoom_def invalidateSize_def throws_def)

lemma adjustMapZoom_try_zoom:
  "\<not> throws m GetZoom \<Longrightarrow> \<not> throws m GetCenter \<Longrightarrow> \<not> throws m SetZoom \<Longrightarrow>
   zoom (fst (adjustMapZoom_try m os)) =
     (if MIN_ZOOM_LEVEL < zoom m then zoom m - ZOOM_ADJUSTMENT else zoom m)"
  by (simp add: adjustMapZoom_try_def Let_def setZoom_def invalidateSize_def)

lemma restore_try_done:
  "orig_zoom os = Some z \<Longrightarrow> orig_center os = Some c \<Longrightarrow>
   \<not> throws m SetZoom \<Longrightarrow> \<not> throws m PanTo \<Longrightarrow> \<not> throws m InvalidateSize \<Longrightarrow>
   restore_try os m = invalidateSize False False (panTo c False (setZoom z False m))"
  by (simp add: restore_try_def Let_def)

section \<open>One apply and its frame\<close>




lemma postPaint_ready:
  assumes "map_ready s e a"
  shows "postPaint s =
    (let m = heap s a;
         m1 = (if is_function m SetMaxBounds then applyMapBounds_try (window s) m else m);
         r = (if is_function m1 GetZoom then adjustMapZoom_try m1 (originalStyles s)
              else (m1, originalStyles s))
     in s\<lparr>domCache_map := Some (nid e), heap := (heap s)(a := fst r),
          originalStyles := snd r, resizes := Suc (resizes s)\<rparr>)"
proof -
  let ?s1 = "applyMapBounds s"
  have s1: "?s1 = s\<lparr>domCache_map := Some (nid e),
       heap := (heap s)(a := if is_function (heap s a) SetMaxBounds
                             then applyMapBounds_try (window s) (heap s a) else heap s a)\<rparr>"
    by (rule applyMapBounds_ready[OF assms])
  have r1: "map_ready ?s1 e a"
    by (rule map_ready_same_page[OF assms]) (simp_all add: s1)
  show ?thesis
    unfolding postPaint_def Let_def adjustMapZoom_ready[OF r1]
    by (simp add: s1)
qed

section \<open>What the map operations leave alone\<close>

lemma applyMapBounds_frame:
  "document (applyMapBounds s) = document s"
  "window (applyMapBounds s) = window s"
  "originalStyles (applyMapBounds s) = originalStyles s"
  "stylesApplied (applyMapBounds s) = stylesApplied s"
  "frames (applyMapBounds s) = frames s"
  "fullMapHeight (applyMapBounds s) = fullMapHeight s"
  using getCachedElement_frame[of SELECTORS_MAP s]
  by (cases "getCachedElement SELECTORS_MAP s";
      simp add: applyMapBounds_def split: option.splits ref.splits)+



section \<open>The stored viewport is written once\<close>

lemma snapshot_eq:
  "originalStyles t = originalStyles s \<Longrightarrow> snapshot t = snapshot s"
  by (simp add: snapshot_def)

lemma adjustMapZoom_snapshot:
  assumes "fst (snapshot s) \<noteq> None"
  shows "snapshot (adjustMapZoom s) = snapshot s"
proof -
  from assms have z: "orig_zoom (originalStyles s) \<noteq> None"
    by (simp add: snapshot_def)
  have "originalStyles (adjustMapZoom s) = originalStyles s"
    using getCachedElement_frame(3)[of SELECTORS_MAP s] z
      adjustMapZoom_try_keeps_snapshot[of "originalStyles s"]
    by (cases "getCachedElement SELECTORS_MAP s")
       (auto simp add: adjustMapZoom_def case_prod_beta split: option.splits ref.splits)
  then show ?thesis by (rule snapshot_eq)
qed

lemma postPaint_snapshot:
  "fst (snapshot s) \<noteq> None \<Longrightarrow> snapshot (postPaint s) = snapshot s"
  using adjustMapZoom_snapshot[of "applyMapBounds s"]
  by (simp add: postPaint_def Let_def snapshot_def applyMapBounds_frame)

lemma applyFullMapHeight_snapshot:
  "snapshot (snd (applyFullMapHeight s)) = snapshot s"
  by (simp add: snapshot_def applyFullMapHeight_frame)

lemma removeFullMapHeight_snapshot:
  "snapshot (snd (removeFullMapHeight s)) = snapshot s"
  by (simp add: snapshot_def removeFullMapHeight_frame)

lemma initApply_snapshot:
  "snapshot (initApply s) = snapshot s"
  using getCachedElement_frame(3)[of SELECTORS_MAP s]
  by (cases "getCachedElement SELECTORS_MAP s")
     (auto simp add: initApply_def snapshot_def applyFullMapHeight_frame split: option.splits)

lemma run_callback_snapshot:
  "fst (snapshot s) \<noteq> None \<Longrightarrow> snapshot (run_callback c s) = snapshot s"
  by (cases c) (simp_all add: postPaint_snapshot initApply_snapshot)

lemma fold_run_callback_snapshot:
  "fst (snapshot s) \<noteq> None \<Longrightarrow> snapshot (fold run_callback cs s) = snapshot s"
proof (induction cs arbitrary: s)
  case Nil
  then show ?case by simp
next
  case (Cons c cs)
  have "snapshot (run_callback c s) = snapshot s"
    by (rule run_callback_snapshot[OF Cons.prems])
  with Cons show ?case by simp
qed

lemma storageCallback_snapshot:
  "snapshot (snd (storageCallback err res s)) = snapshot s"
  by (simp add: storageCallback_def Let_def snapshot_def applyFullMapHeight_frame
      removeFullMapHeight_frame split: option.splits)

lemma loadUserPreferences_snapshot:
  "snapshot (snd (loadUserPreferences g s)) = snapshot s"
  by (simp add: loadUserPreferences_def applyFullMapHeight_snapshot) (simp add: snapshot_def)

lemma init_snapshot:
  "snapshot (snd (init g s)) = snapshot s"
proof -
  obtain mc s1 where c: "getCachedElement SELECTORS_MAP s = (mc, s1)"
    by (cases "getCachedElement SELECTORS_MAP s")
  then have o: "originalStyles s1 = originalStyles s"
    using getCachedElement_frame(3)[of SELECTORS_MAP s] by simp
  define s2 where "s2 = (case mc of
       Some e \<Rightarrow> s1\<lparr>originalStyles := (originalStyles s1)\<lparr>mapHeight := Some (style_height e)\<rparr>\<rparr>
     | None \<Rightarrow> s1)"
  have s2: "snapshot s2 = snapshot s"
    using o by (simp add: s2_def snapshot_def split: option.splits)
  obtain k s3 where l: "loadUserPreferences g (s2\<lparr>observing := True\<rparr>) = (k, s3)"
    by (cases "loadUserPreferences g (s2\<lparr>observing := True\<rparr>)")
  have "snapshot s3 = snapshot (s2\<lparr>observing := True\<rparr>)"
    using loadUserPreferences_snapshot[of g "s2\<lparr>observing := True\<rparr>"] l by simp
  then have s3: "snapshot s3 = snapshot s"
    using s2 by (simp add: snapshot_def)
  have "init g s =
     (if \<not> mainContainer (document s2) then (Throw ''TypeError: observe target is not a Node'', s2)
      else (case (k, s3) of (Throw e, s3) \<Rightarrow> (Throw e, s3)
            | (Normal, s3) \<Rightarrow> if hrefIsObservations (location s3)
                 then (Normal, s3\<lparr>frames := frames s3 @ [InitApply]\<rparr>) else (Normal, s3)))"
    by (simp add: init_def c Let_def s2_def[symmetric] l)
  then show ?thesis
    using s2 s3 by (cases k) (auto simp add: snapshot_def)
qed

lemma scanAddedNodes_snapshot:
  "snapshot (scanAddedNodes ns s) = snapshot s"
  by (induction ns) (simp_all add: snapshot_def debouncedMapHandler_def)

lemma scanMutations_snapshot:
  "snapshot (scanMutations ms s) = snapshot s"
  by (induction ms arbitrary: s) (simp_all add: scanAddedNodes_snapshot)

lemma observerCallback_snapshot:
  "snapshot (observerCallback ms s) = snapshot s"
  by (simp add: observerCallback_def scanMutations_snapshot)

lemma onMessage_snapshot:
  "snapshot (snd (onMessage msg sid s)) = snapshot s"
proof -
  let ?s1 = "s\<lparr>fullMapHeight := enabled msg\<rparr>"
  have a: "snapshot (snd (applyFullMapHeight ?s1)) = snapshot s"
    by (simp add: applyFullMapHeight_snapshot) (simp add: snapshot_def)
  have r: "snapshot (snd (removeFullMapHeight ?s1)) = snapshot s"
    by (simp add: removeFullMapHeight_snapshot) (simp add: snapshot_def)
  show ?thesis
    using a r
    by (cases "applyFullMapHeight ?s1"; cases "removeFullMapHeight ?s1")
       (auto simp add: onMessage_def listener_def Let_def split: completion.splits option.splits)
qed

lemma step_snapshot:
  assumes "fst (snapshot s) \<noteq> None"
  shows "snapshot (step ev s) = snapshot s"
proof (cases ev)
  case (Init g)
  then show ?thesis by (simp add: init_snapshot)
next
  case (StorageResult err res)
  then show ?thesis
    using storageCallback_snapshot[of err res "s\<lparr>storagePending := False\<rparr>"]
    by (simp add: snapshot_def)
next
  case Frame
  have "fst (snapshot (s\<lparr>frames := []\<rparr>)) \<noteq> None"
    using assms by (simp add: snapshot_def)
  from fold_run_callback_snapshot[OF this, of "frames s"] Frame show ?thesis
    by (simp add: snapshot_def)
next
  case (Mutations ms)
  then show ?thesis by (simp add: observerCallback_snapshot)
next
  case TimerFires
  have "fst (snapshot (s\<lparr>timer := False\<rparr>)) \<noteq> None"
    using assms by (simp add: snapshot_def)
  from adjustMapZoom_snapshot[OF this] TimerFires show ?thesis
    by (simp add: mapHandler_def) (simp add: snapshot_def)
next
  case (Message msg sid)
  then show ?thesis by (simp add: onMessage_snapshot)
qed (simp_all add: snapshot_def)

lemma run_snapshot:
  "fst (snapshot s) \<noteq> None \<Longrightarrow> snapshot (run es s) = snapshot s"
proof (induction es arbitrary: s)
  case Nil
  then show ?case by simp
next
  case (Cons ev es)
  have "snapshot (step ev s) = snapshot s"
    by (rule step_snapshot[OF Cons.prems])
  with Cons show ?case by simp
qed

section \<open>The singleton stylesheet in a session\<close>

lemma removeFullMapHeight_count:
  "style_count (document s) \<le> 1 \<Longrightarrow> style_count (document (snd (removeFullMapHeight s))) = 0"
  by (cases "getElementById STYLE_ID (document s)")
     (simp_all add: removeFullMapHeight_def Let_def restoreViewport_frame remove_style_count
        no_style_count)












section \<open>Evaluating the example pages\<close>

lemmas script_defs =
  onMessage_def listener_def applyFullMapHeight_def removeFullMapHeight_def injectStyles_def
  getElementById_def querySelector_def contains_def element_of_def remove_node_def
  getCachedElement_def getLeafletMapInstance_def applyMapBounds_def applyMapBounds_try_def
  adjustMapZoom_def adjustMapZoom_try_def restoreViewport_def restore_try_def postPaint_def
  is_function_def throws_def setZoom_def panTo_def invalidateSize_def setMaxBounds_def
  setMinZoom_def eachLayer_def markNoWrap_def SELECTORS_MAP_def STYLE_ID_def
  MIN_ZOOM_LEVEL_def ZOOM_ADJUSTMENT_def Let_def snapshot_def applyThenFrame_def
  style_count_def storageCallback_def

lemmas script2_defs =
  onMessage2_def applyFullMapHeight2_def removeFullMapHeight2_def isMapViewPage_def
  map_or_leaflet_container_def classList_add_def classList_remove_def MARKER_CLASS_def

lemmas demo_defs =
  demo_page_def demo_element_def demo_map_def toggle_def item_page_def low_zoom_page_def
  revisited_page_def userZoom_def

lemma demo_ready: "map_ready demo_page demo_element 3"
  by (simp add: map_ready_def demo_defs script_defs)

section \<open>Repeated apply\<close>








section \<open>The script's own lookup\<close>

lemma distinct_find_nid:
  "distinct (map nid xs) \<Longrightarrow> e \<in> set xs \<Longrightarrow> find (\<lambda>n. nid n = nid e) xs = Some e"
  by (induction xs) (auto simp add: image_iff)

lemma cache_same_update: "domCache_map s = Some h \<Longrightarrow> s\<lparr>domCache_map := Some h\<rparr> = s"
  by (cases s) simp

lemma resolves_cached:
  assumes "resolves s e a" and "unique_ids (document s)"
  shows "getCachedElement SELECTORS_MAP s = (Some e, s\<lparr>domCache_map := Some (nid e)\<rparr>)"
    and "element_of (document s) (nid e) = Some e"
proof -
  from assms(1) have g: "fst (getCachedElement SELECTORS_MAP s) = Some e"
    by (simp add: resolves_def)
  have "getCachedElement SELECTORS_MAP s = (Some e, s\<lparr>domCache_map := Some (nid e)\<rparr>) \<and>
        element_of (document s) (nid e) = Some e"
  proof (cases "\<exists>h. domCache_map s = Some h \<and> contains (document s) h")
    case True
    then obtain h where h: "domCache_map s = Some h" "contains (document s) h" by blast
    with g have el: "element_of (document s) h = Some e"
      by (simp add: getCachedElement_def)
    then have "nid e = h"
      by (auto simp add: element_of_def dest: find_Some_holds)
    with h el show ?thesis
      by (simp add: getCachedElement_def cache_same_update)
  next
    case False
    with g have q: "querySelector SELECTORS_MAP (document s) = Some e"
      by (auto simp add: getCachedElement_def split: option.splits if_splits)
    then have "e \<in> set (nodes (document s))"
      by (auto simp add: querySelector_def dest: find_Some_holds)
    with assms(2) have "element_of (document s) (nid e) = Some e"
      by (simp add: unique_ids_def element_of_def distinct_find_nid)
    with False q show ?thesis
      by (auto simp add: getCachedElement_def split: option.splits)
  qed
  then show "getCachedElement SELECTORS_MAP s = (Some e, s\<lparr>domCache_map := Some (nid e)\<rparr>)"
    and "element_of (document s) (nid e) = Some e" by simp_all
qed

lemma resolves_held:
  assumes "element_of (document t) (nid e) = Some e" and "domCache_map t = Some (nid e)"
    and "getLeafletMapInstance (window t) (Some e) = RObj a"
  shows "resolves t e a"
proof -
  from assms(1) have "e \<in> set (nodes (document t))"
    by (simp add: element_of_def find_Some_holds)
  then have "contains (document t) (nid e)"
    by (auto simp add: contains_def)
  with assms show ?thesis
    by (simp add: resolves_def getCachedElement_def)
qed

lemma resolves_lookup:
  "resolves s e a \<Longrightarrow> getLeafletMapInstance (window s) (Some e) = RObj a"
  by (simp add: resolves_def)

lemma resolves_after_lookup:
  assumes "resolves s e a" and "unique_ids (document s)"
    and "document t = document s" and "window t = window s"
    and "domCache_map t = Some (nid e)"
  shows "resolves t e a"
  using resolves_cached(2)[OF assms(1,2)] resolves_lookup[OF assms(1)] assms(3,4,5)
  by (intro resolves_held) simp_all

lemma map_ready_resolves:
  "map_ready s e a \<Longrightarrow> resolves s e a"
  by (simp add: resolves_def map_ready_cached) (simp add: map_ready_def)

lemma applyMapBounds_resolves:
  assumes "resolves s e a" and "unique_ids (document s)"
  shows "applyMapBounds s =
     s\<lparr>domCache_map := Some (nid e),
       heap := (heap s)(a := if is_function (heap s a) SetMaxBounds
                             then applyMapBounds_try (window s) (heap s a) else heap s a)\<rparr>"
  by (simp add: applyMapBounds_def resolves_cached(1)[OF assms] resolves_lookup[OF assms(1)])

lemma adjustMapZoom_resolves:
  assumes "resolves s e a" and "unique_ids (document s)"
  shows "adjustMapZoom s =
     s\<lparr>domCache_map := Some (nid e),
       heap := (heap s)(a := if is_function (heap s a) GetZoom
                             then fst (adjustMapZoom_try (heap s a) (originalStyles s)) else heap s a),
       originalStyles := (if is_function (heap s a) GetZoom
                          then snd (adjustMapZoom_try (heap s a) (originalStyles s))
                          else originalStyles s)\<rparr>"
  by (simp add: adjustMapZoom_def resolves_cached(1)[OF assms] resolves_lookup[OF assms(1)]
      split: prod.splits)

lemma restoreViewport_resolves:
  assumes "resolves s e a" and "unique_ids (document s)"
    and "orig_zoom (originalStyles s) \<noteq> None"
  shows "restoreViewport s =
     s\<lparr>domCache_map := Some (nid e),
       heap := (heap s)(a := if is_function (heap s a) SetZoom
                             then restore_try (originalStyles s) (heap s a) else heap s a)\<rparr>"
  using assms(3)
  by (simp add: restoreViewport_def resolves_cached(1)[OF assms(1,2)] resolves_lookup[OF assms(1)])

lemma remove1_distinct_nid:
  "distinct (map nid xs) \<Longrightarrow> distinct (map nid (remove1 n xs))"
  by (induction xs) (auto simp add: image_iff dest: notin_set_remove1)

lemma contains_remove1:
  "contains (d\<lparr>nodes := remove1 n (nodes d)\<rparr>) h \<Longrightarrow> contains d h"
  using set_remove1_subset[of n "nodes d"] by (auto simp add: contains_def)

lemma resolves_remove_style:
  assumes "resolves s e a" and "unique_ids (document s)" and "el_id e \<noteq> STYLE_ID"
    and "getElementById STYLE_ID (document s) = Some n"
    and "document t = remove_node n (document s)" and "window t = window s"
    and "domCache_map t = domCache_map s"
  shows "resolves t e a" and "unique_ids (document t)"
proof -
  from assms(4) have "el_id n = STYLE_ID"
    by (auto simp add: getElementById_def dest: find_Some_holds)
  with assms(3) have ne: "n \<noteq> e" by auto
  show u: "unique_ids (document t)"
    using assms(2,5) by (simp add: unique_ids_def remove_node_def remove1_distinct_nid)
  from assms(1) have g: "fst (getCachedElement SELECTORS_MAP s) = Some e"
    and l: "getLeafletMapInstance (window s) (Some e) = RObj a"
    by (simp_all add: resolves_def)
  have "fst (getCachedElement SELECTORS_MAP t) = Some e"
  proof (cases "\<exists>h. domCache_map s = Some h \<and> contains (document s) h")
    case True
    then obtain h where h: "domCache_map s = Some h" "contains (document s) h" by blast
    with g have el: "element_of (document s) h = Some e"
      by (simp add: getCachedElement_def)
    then have el': "element_of (document t) h = Some e"
      using ne assms(5) by (simp add: element_of_def remove_node_def find_remove1_other)
    then have "e \<in> set (nodes (document t))"
      by (simp add: element_of_def find_Some_holds)
    moreover from el have "nid e = h"
      by (auto simp add: element_of_def dest: find_Some_holds)
    ultimately have "contains (document t) h"
      by (auto simp add: contains_def)
    with el' h assms(7) show ?thesis
      by (simp add: getCachedElement_def)
  next
    case False
    with g have q: "querySelector SELECTORS_MAP (document s) = Some e"
      by (auto simp add: getCachedElement_def split: option.splits if_splits)
    then have q': "querySelector SELECTORS_MAP (document t) = Some e"
      using ne assms(5) by (simp add: querySelector_def remove_node_def find_remove1_other)
    from False have "\<not> (\<exists>h. domCache_map t = Some h \<and> contains (document t) h)"
      using assms(5,7) contains_remove1[where d = "document s" and n = n] by (auto simp add: remove_node_def)
    with q' show ?thesis
      by (auto simp add: getCachedElement_def split: option.splits)
  qed
  with l assms(6) show "resolves t e a"
    by (simp add: resolves_def)
qed

section \<open>Removing the styles\<close>

lemma getCachedElement_same_nodes:
  "nodes (document t) = nodes (document s) \<Longrightarrow> domCache_map t = domCache_map s \<Longrightarrow>
   fst (getCachedElement sel t) = fst (getCachedElement sel s)"
  by (auto simp add: getCachedElement_def contains_def element_of_def querySelector_def
      split: option.splits)

lemma resolves_same_nodes:
  "resolves s e a \<Longrightarrow> nodes (document t) = nodes (document s) \<Longrightarrow> window t = window s \<Longrightarrow>
   domCache_map t = domCache_map s \<Longrightarrow> resolves t e a"
  using getCachedElement_same_nodes[of t s SELECTORS_MAP] by (simp add: resolves_def)

lemma unique_ids_same_nodes:
  "unique_ids d \<Longrightarrow> nodes d' = nodes d \<Longrightarrow> unique_ids d'"
  by (simp add: unique_ids_def)

lemma postPaint_captures:
  assumes "resolves u e a" and "unique_ids (document u)"
    and "orig_zoom (originalStyles u) = None"
    and "\<not> throws (heap u a) GetZoom" and "\<not> throws (heap u a) GetCenter"
  shows "snapshot (postPaint u) =
     (Some (zoom (heap (applyMapBounds u) a)), Some (center (heap (applyMapBounds u) a)))"
proof -
  define u1 where "u1 = applyMapBounds u"
  define m1 where "m1 = (if is_function (heap u a) SetMaxBounds
      then applyMapBounds_try (window u) (heap u a) else heap u a)"
  have u1: "u1 = u\<lparr>domCache_map := Some (nid e), heap := (heap u)(a := m1)\<rparr>"
    unfolding u1_def m1_def by (rule applyMapBounds_resolves[OF assms(1,2)])
  have r1: "resolves u1 e a"
    by (rule resolves_after_lookup[OF assms(1,2)]) (simp_all add: u1)
  have q1: "unique_ids (document u1)"
    using assms(2) by (simp add: u1)
  have h1: "heap u1 a = m1" "originalStyles u1 = originalStyles u"
    by (simp_all add: u1)
  have t1: "\<not> throws m1 GetZoom" "\<not> throws m1 GetCenter"
    using assms(4,5) by (simp_all add: m1_def applyMapBounds_try_keeps)
  have f1: "is_function m1 GetZoom"
    by (rule not_throws_is_function[OF t1(1)])
  have c: "snd (adjustMapZoom_try m1 (originalStyles u)) =
      (originalStyles u)\<lparr>orig_zoom := Some (zoom m1), orig_center := Some (center m1)\<rparr>"
    by (rule adjustMapZoom_try_captures[OF assms(3) t1])
  have "originalStyles (adjustMapZoom u1) = snd (adjustMapZoom_try m1 (originalStyles u))"
    unfolding adjustMapZoom_resolves[OF r1 q1] using f1 h1 by simp
  then have "snapshot (adjustMapZoom u1) = (Some (zoom m1), Some (center m1))"
    using c by (simp add: snapshot_def)
  then show ?thesis
    using h1(1) by (simp add: postPaint_def Let_def u1_def[symmetric] snapshot_def)
qed

lemma removeFullMapHeight_restores_resolved:
  assumes "resolves t e a" and "unique_ids (document t)" and "el_id e \<noteq> STYLE_ID"
    and "orig_zoom (originalStyles t) = Some z" and "orig_center (originalStyles t) = Some c"
    and "\<not> throws (heap t a) SetZoom" and "\<not> throws (heap t a) PanTo"
    and "\<not> throws (heap t a) InvalidateSize"
  shows "heap (snd (removeFullMapHeight t)) a =
     invalidateSize False False (panTo c False (setZoom z False (heap t a)))"
proof -
  let ?s1 = "case getElementById STYLE_ID (document t) of
               Some n \<Rightarrow> t\<lparr>document := remove_node n (document t)\<rparr> | None \<Rightarrow> t"
  let ?s2 = "?s1\<lparr>stylesApplied := False\<rparr>"
  have r: "resolves ?s2 e a \<and> unique_ids (document ?s2)"
  proof (cases "getElementById STYLE_ID (document t)")
    case None
    with assms(1,2) show ?thesis
      using resolves_same_nodes[OF assms(1), of "t\<lparr>stylesApplied := False\<rparr>"] by simp
  next
    case (Some n)
    have "resolves (t\<lparr>document := remove_node n (document t), stylesApplied := False\<rparr>) e a"
      "unique_ids (document (t\<lparr>document := remove_node n (document t), stylesApplied := False\<rparr>))"
      by (rule resolves_remove_style[OF assms(1,2,3) Some]; simp)+
    with Some show ?thesis by simp
  qed
  have k: "originalStyles ?s2 = originalStyles t" "heap ?s2 = heap t"
    by (simp_all split: option.splits)
  have z: "orig_zoom (originalStyles ?s2) \<noteq> None"
    using assms(4) k by simp
  have "heap (restoreViewport ?s2) a = restore_try (originalStyles t) (heap t a)"
    using r restoreViewport_resolves[of ?s2 e a] z not_throws_is_function[OF assms(6)] k
    by simp
  then show ?thesis
    using restore_try_done[OF assms(4,5,6,7,8)]
    by (simp add: removeFullMapHeight_def Let_def)
qed

text \<open>
  Claim C2. The viewport is stored by the frame callback of \<open>applyFullMapHeight\<close>, not
  when \<open>applyFullMapHeight\<close> is called. When the map goes from zoom 5 to zoom 8 between
  the call and its frame, the frame stores 8 and \<open>removeFullMapHeight\<close> sets the zoom to
  8, not to the 5 the map had before the call.
\<close>

theorem restore_not_pre_apply_counterexample:
  "zoom (heap demo_page 3) = 5
   \<and> snapshot (run [Message (toggle True) (Some ''abcdefghijklmnop''),
                    SetHeap (\<lambda>a. demo_map 8), Frame] demo_page) = (Some 8, Some (10, 20))
   \<and> zoom (heap (run [Message (toggle True) (Some ''abcdefghijklmnop''),
                      SetHeap (\<lambda>a. demo_map 8), Frame,
                      Message (toggle False) (Some ''abcdefghijklmnop'')] demo_page) 3) = 8
   \<and> calls (heap (run [Message (toggle True) (Some ''abcdefghijklmnop''),
                       SetHeap (\<lambda>a. demo_map 8), Frame,
                       Message (toggle False) (Some ''abcdefghijklmnop'')] demo_page) 3) =
        [CSetMaxBounds (- 85, - 180) (85, 180), CSetMinZoom 2, CEachLayer,
         CSetZoom (15 / 2) False, CInvalidateSize False False,
         CSetZoom 8 False, CPanTo (10, 20) False, CInvalidateSize False False]"
  by (simp add: demo_defs script_defs)

text \<open>
  Claim C2, amended. Let the frame callback of \<open>applyFullMapHeight\<close> run in a state
  \<open>u\<close> with no stored zoom, where the script resolves a map whose \<open>getZoom\<close> and
  \<open>getCenter\<close> return. The callback stores the zoom and center that map has when
  \<open>adjustMapZoom\<close> runs, after \<open>applyMapBounds\<close>, and no later turn changes what is
  stored. When \<open>removeFullMapHeight\<close> runs after any further turns and the script then
  resolves a map whose \<open>setZoom\<close>, \<open>panTo\<close> and \<open>invalidateSize\<close> return, also
  through a new map container, that map gets exactly the stored zoom and center, each
  set with \<open>animate: false\<close>, followed by
  \<open>invalidateSize({animate: false, pan: false})\<close>. The documents have distinct
  element identities, and the container resolved at the removal is not the stylesheet
  element, which the removal deletes first.
\<close>

theorem remove_restores_snapshot:
  assumes "frames u = [PostPaint]" and "orig_zoom (originalStyles u) = None"
    and "unique_ids (document u)" and "resolves u e a"
    and "\<not> throws (heap u a) GetZoom" and "\<not> throws (heap u a) GetCenter"
    and "t = run es (step Frame u)"
    and "unique_ids (document t)" and "resolves t e' a'" and "el_id e' \<noteq> STYLE_ID"
    and "\<not> throws (heap t a') SetZoom" and "\<not> throws (heap t a') PanTo"
    and "\<not> throws (heap t a') InvalidateSize"
  shows
    "snapshot (step Frame u) =
       (Some (zoom (heap (applyMapBounds u) a)), Some (center (heap (applyMapBounds u) a)))
     \<and> snapshot t = snapshot (step Frame u)
     \<and> zoom (heap (snd (removeFullMapHeight t)) a') = zoom (heap (applyMapBounds u) a)
     \<and> center (heap (snd (removeFullMapHeight t)) a') = center (heap (applyMapBounds u) a)
     \<and> calls (heap (snd (removeFullMapHeight t)) a') =
         calls (heap t a') @ [CSetZoom (zoom (heap (applyMapBounds u) a)) False,
                              CPanTo (center (heap (applyMapBounds u) a)) False,
                              CInvalidateSize False False]
     \<and> \<not> stylesApplied (snd (removeFullMapHeight t))"
proof -
  let ?u = "u\<lparr>frames := []\<rparr>"
  let ?z = "zoom (heap (applyMapBounds u) a)"
  let ?c = "center (heap (applyMapBounds u) a)"
  have r: "resolves ?u e a"
    by (rule resolves_same_nodes[OF assms(4)]) simp_all
  have q: "unique_ids (document ?u)"
    using assms(3) by simp
  have hb: "heap (applyMapBounds ?u) = heap (applyMapBounds u)"
    unfolding applyMapBounds_resolves[OF r q] applyMapBounds_resolves[OF assms(4,3)] by simp
  have fr: "step Frame u = postPaint ?u"
    using assms(1) by simp
  have "snapshot (postPaint ?u) =
     (Some (zoom (heap (applyMapBounds ?u) a)), Some (center (heap (applyMapBounds ?u) a)))"
    using assms(2,5,6) by (intro postPaint_captures[OF r q]) simp_all
  then have c: "snapshot (step Frame u) = (Some ?z, Some ?c)"
    by (simp only: fr hb)
  then have "fst (snapshot (step Frame u)) \<noteq> None" by simp
  from run_snapshot[OF this, of es] assms(7)
  have st: "snapshot t = snapshot (step Frame u)" by simp
  with c have o: "orig_zoom (originalStyles t) = Some ?z" "orig_center (originalStyles t) = Some ?c"
    by (simp_all add: snapshot_def)
  have h: "heap (snd (removeFullMapHeight t)) a' =
     invalidateSize False False (panTo ?c False (setZoom ?z False (heap t a')))"
    by (rule removeFullMapHeight_restores_resolved[OF assms(9,8,10) o assms(11,12,13)])
  have f: "\<not> stylesApplied (snd (removeFullMapHeight t))"
    by (simp add: removeFullMapHeight_def Let_def restoreViewport_frame split: option.splits)
  have z1: "zoom (heap (snd (removeFullMapHeight t)) a') = ?z"
    and z2: "center (heap (snd (removeFullMapHeight t)) a') = ?c"
    and z3: "calls (heap (snd (removeFullMapHeight t)) a') =
         calls (heap t a') @ [CSetZoom ?z False, CPanTo ?c False, CInvalidateSize False False]"
    unfolding h by (simp_all add: invalidateSize_def panTo_def setZoom_def)
  show ?thesis
    using c st z1 z2 z3 f by blast
qed

theorem remove_restores_snapshot_witness:
  "zoom (heap demo_page 3) = 5
   \<and> zoom (heap (run [Message (toggle True) (Some ''abcdefghijklmnop''),
                      SetHeap (\<lambda>a. demo_map 8)] demo_page) 3) = 8
   \<and> snapshot (step Frame (run [Message (toggle True) (Some ''abcdefghijklmnop''),
                                SetHeap (\<lambda>a. demo_map 8)] demo_page)) = (Some 8, Some (10, 20))
   \<and> domCache_map (run [SetDocument remounted_document]
        (step Frame (run [Message (toggle True) (Some ''abcdefghijklmnop''),
                          SetHeap (\<lambda>a. demo_map 8)] demo_page))) = Some 0
   \<and> zoom (heap (run [SetDocument remounted_document]
        (step Frame (run [Message (toggle True) (Some ''abcdefghijklmnop''),
                          SetHeap (\<lambda>a. demo_map 8)] demo_page))) 3) = 15 / 2
   \<and> zoom (heap (snd (removeFullMapHeight (run [SetDocument remounted_document]
        (step Frame (run [Message (toggle True) (Some ''abcdefghijklmnop''),
                          SetHeap (\<lambda>a. demo_map 8)] demo_page))))) 3) = 8
   \<and> center (heap (snd (removeFullMapHeight (run [SetDocument remounted_document]
        (step Frame (run [Message (toggle True) (Some ''abcdefghijklmnop''),
                          SetHeap (\<lambda>a. demo_map 8)] demo_page))))) 3) = (10, 20)"
proof -
  let ?u = "run [Message (toggle True) (Some ''abcdefghijklmnop''),
                 SetHeap (\<lambda>a. demo_map 8)] demo_page"
  let ?t = "run [SetDocument remounted_document] (step Frame ?u)"
  have h: "frames ?u = [PostPaint]" "orig_zoom (originalStyles ?u) = None"
    "unique_ids (document ?u)" "resolves ?u demo_element 3"
    "\<not> throws (heap ?u 3) GetZoom" "\<not> throws (heap ?u 3) GetCenter"
    by (simp_all add: unique_ids_def resolves_def demo_defs script_defs)
  have k: "unique_ids (document ?t)" "resolves ?t remounted_element 3"
    "el_id remounted_element \<noteq> STYLE_ID"
    "\<not> throws (heap ?t 3) SetZoom" "\<not> throws (heap ?t 3) PanTo"
    "\<not> throws (heap ?t 3) InvalidateSize"
    by (simp_all add: unique_ids_def resolves_def remounted_document_def remounted_element_def
        demo_defs script_defs)
  have g: "zoom (heap demo_page 3) = 5" "zoom (heap ?u 3) = 8"
    "zoom (heap (applyMapBounds ?u) 3) = 8" "center (heap (applyMapBounds ?u) 3) = (10, 20)"
    "domCache_map ?t = Some 0" "zoom (heap ?t 3) = 15 / 2"
    by (simp_all add: remounted_document_def demo_defs script_defs)
  note th = remove_restores_snapshot[OF h refl k]
  show ?thesis
    using th g by simp
qed

section \<open>The zoom step\<close>

text \<open>
  Claim C6. The zoom after the step can be below the floor: at zoom 1.25, which exceeds
  \<open>MIN_ZOOM_LEVEL\<close>, \<open>adjustMapZoom\<close> calls \<open>setZoom(0.75, {animate: false})\<close>.
  The guard is on the zoom before the step, and the result is not compared with
  \<open>MIN_ZOOM_LEVEL\<close>.
\<close>

theorem zoom_step_counterexample:
  "resolved low_zoom_page = RObj 3
   \<and> zoom (heap low_zoom_page 3) = 5 / 4
   \<and> MIN_ZOOM_LEVEL < zoom (heap low_zoom_page 3)
   \<and> zoom (heap (adjustMapZoom low_zoom_page) 3) = 3 / 4
   \<and> zoom (heap (adjustMapZoom low_zoom_page) 3) < MIN_ZOOM_LEVEL
   \<and> calls (heap (adjustMapZoom low_zoom_page) 3) =
        [CSetZoom (3 / 4) False, CInvalidateSize False False]"
  by (simp add: resolved_def demo_defs script_defs)

text \<open>
  What does hold of the zoom step. On a resolved map whose \<open>getZoom\<close>,
  \<open>getCenter\<close> and \<open>setZoom\<close> return, \<open>adjustMapZoom\<close> lowers a zoom above
  \<open>MIN_ZOOM_LEVEL\<close> by exactly \<open>ZOOM_ADJUSTMENT\<close> and leaves any other zoom as it
  is; the new zoom is not below \<open>MIN_ZOOM_LEVEL\<close> when the zoom before was at least
  \<open>MIN_ZOOM_LEVEL + ZOOM_ADJUSTMENT\<close>. The frame callback of \<open>applyFullMapHeight\<close>
  also restricts the bounds to latitudes -85..85 and longitudes -180..180 and sets the
  minimum zoom to 2, when the library builds the bounds and \<open>setMaxBounds\<close> and
  \<open>setMinZoom\<close> return; from zoom 5 the zoom becomes 4.5.
\<close>

lemma zoom_step:
  assumes "map_ready s e a"
    and "\<not> throws (heap s a) GetZoom" and "\<not> throws (heap s a) GetCenter"
    and "\<not> throws (heap s a) SetZoom"
  shows
    "zoom (heap (adjustMapZoom s) a) =
       (if MIN_ZOOM_LEVEL < zoom (heap s a) then zoom (heap s a) - ZOOM_ADJUSTMENT
        else zoom (heap s a))
     \<and> (MIN_ZOOM_LEVEL < zoom (heap s a) \<longrightarrow>
          MIN_ZOOM_LEVEL - ZOOM_ADJUSTMENT < zoom (heap (adjustMapZoom s) a))
     \<and> (MIN_ZOOM_LEVEL + ZOOM_ADJUSTMENT \<le> zoom (heap s a) \<longrightarrow>
          MIN_ZOOM_LEVEL \<le> zoom (heap (adjustMapZoom s) a))
     \<and> (L_latLng (window s) \<and> L_latLngBounds (window s) \<and>
         \<not> throws (heap s a) SetMaxBounds \<and> \<not> throws (heap s a) SetMinZoom \<longrightarrow>
          maxBounds (heap (postPaint s) a) = Some ((- 85, - 180), (85, 180)) \<and>
          minZoom (heap (postPaint s) a) = 2 \<and>
          zoom (heap (postPaint s) a) =
            (if MIN_ZOOM_LEVEL < zoom (heap s a) then zoom (heap s a) - ZOOM_ADJUSTMENT
             else zoom (heap s a)))"
proof -
  let ?m = "heap s a"
  have f: "is_function ?m GetZoom"
    by (rule not_throws_is_function[OF assms(2)])
  have z: "zoom (heap (adjustMapZoom s) a) =
       (if MIN_ZOOM_LEVEL < zoom ?m then zoom ?m - ZOOM_ADJUSTMENT else zoom ?m)"
    unfolding adjustMapZoom_ready[OF assms(1)]
    using f adjustMapZoom_try_zoom[OF assms(2,3,4), of "originalStyles s"] by simp
  have p: "L_latLng (window s) \<and> L_latLngBounds (window s) \<and>
         \<not> throws ?m SetMaxBounds \<and> \<not> throws ?m SetMinZoom \<longrightarrow>
          maxBounds (heap (postPaint s) a) = Some ((- 85, - 180), (85, 180)) \<and>
          minZoom (heap (postPaint s) a) = 2 \<and>
          zoom (heap (postPaint s) a) =
            (if MIN_ZOOM_LEVEL < zoom ?m then zoom ?m - ZOOM_ADJUSTMENT else zoom ?m)"
  proof
    assume b: "L_latLng (window s) \<and> L_latLngBounds (window s) \<and>
         \<not> throws ?m SetMaxBounds \<and> \<not> throws ?m SetMinZoom"
    let ?m1 = "applyMapBounds_try (window s) ?m"
    have fb: "is_function ?m SetMaxBounds"
      using b by (simp add: not_throws_is_function)
    have t1: "\<not> throws ?m1 GetZoom" "\<not> throws ?m1 GetCenter" "\<not> throws ?m1 SetZoom"
      using assms(2,3,4) by (simp_all add: applyMapBounds_try_keeps)
    have f1: "is_function ?m1 GetZoom"
      by (rule not_throws_is_function[OF t1(1)])
    show "maxBounds (heap (postPaint s) a) = Some ((- 85, - 180), (85, 180)) \<and>
          minZoom (heap (postPaint s) a) = 2 \<and>
          zoom (heap (postPaint s) a) =
            (if MIN_ZOOM_LEVEL < zoom ?m then zoom ?m - ZOOM_ADJUSTMENT else zoom ?m)"
      unfolding postPaint_ready[OF assms(1)]
      using fb f1 b applyMapBounds_try_done[of "window s" ?m]
        adjustMapZoom_try_zoom[OF t1, of "originalStyles s"]
      by (simp add: Let_def adjustMapZoom_try_keeps applyMapBounds_try_keeps)
  qed
  show ?thesis
    using z p by (simp add: MIN_ZOOM_LEVEL_def ZOOM_ADJUSTMENT_def)
qed

lemma zoom_step_demo:
  "zoom (heap demo_page 3) = 5
   \<and> zoom (heap (adjustMapZoom demo_page) 3) = 9 / 2
   \<and> zoom (heap (postPaint demo_page) 3) = 9 / 2
   \<and> maxBounds (heap (postPaint demo_page) 3) = Some ((- 85, - 180), (85, 180))
   \<and> minZoom (heap (postPaint demo_page) 3) = 2
   \<and> MIN_ZOOM_LEVEL \<le> zoom (heap (adjustMapZoom demo_page) 3)"
proof -
  have h: "\<not> throws (heap demo_page 3) GetZoom" "\<not> throws (heap demo_page 3) GetCenter"
    "\<not> throws (heap demo_page 3) SetZoom"
    by (simp_all add: demo_defs script_defs)
  have g: "\<not> throws (heap demo_page 3) SetMaxBounds" "\<not> throws (heap demo_page 3) SetMinZoom"
    "zoom (heap demo_page 3) = 5" "L_latLng (window demo_page)" "L_latLngBounds (window demo_page)"
    by (simp_all add: demo_defs script_defs)
  note th = zoom_step[OF demo_ready h]
  show ?thesis
    using th g by (simp add: MIN_ZOOM_LEVEL_def ZOOM_ADJUSTMENT_def)
qed

section \<open>The stored viewport in a session\<close>

text \<open>
  Claim C8. In a session of src/content.js the stored viewport (zoom and center) is
  written only while no zoom is stored: a turn that changes it starts from a state with no
  stored zoom, and \<open>adjustMapZoom\<close> on a resolved map whose \<open>getZoom\<close> and
  \<open>getCenter\<close> return stores the viewport of that moment. Once a zoom is stored, no
  sequence of turns changes the stored viewport, so it is not overwritten before a cycle
  of \<open>removeFullMapHeight\<close> and \<open>applyFullMapHeight\<close> completes. The script never
  clears \<open>originalStyles.zoom\<close>: the replacement the claim allows after such a cycle
  does not happen either.
\<close>

theorem snapshot_written_once:
  "(fst (snapshot s) \<noteq> None \<longrightarrow> snapshot (run es s) = snapshot s)
   \<and> (snapshot (step ev s) \<noteq> snapshot s \<longrightarrow> fst (snapshot s) = None)
   \<and> (fst (snapshot s) = None \<and> map_ready s e a \<and>
       \<not> throws (heap s a) GetZoom \<and> \<not> throws (heap s a) GetCenter \<longrightarrow>
         snapshot (adjustMapZoom s) = (Some (zoom (heap s a)), Some (center (heap s a))))"
proof -
  have c: "fst (snapshot s) = None \<and> map_ready s e a \<and>
       \<not> throws (heap s a) GetZoom \<and> \<not> throws (heap s a) GetCenter \<longrightarrow>
         snapshot (adjustMapZoom s) = (Some (zoom (heap s a)), Some (center (heap s a)))"
  proof
    assume h: "fst (snapshot s) = None \<and> map_ready s e a \<and>
       \<not> throws (heap s a) GetZoom \<and> \<not> throws (heap s a) GetCenter"
    then have z: "orig_zoom (originalStyles s) = None" by (simp add: snapshot_def)
    from h have f: "is_function (heap s a) GetZoom" by (simp add: not_throws_is_function)
    from h have r: "map_ready s e a" by simp
    show "snapshot (adjustMapZoom s) = (Some (zoom (heap s a)), Some (center (heap s a)))"
      unfolding adjustMapZoom_ready[OF r]
      using f h adjustMapZoom_try_captures[OF z, of "heap s a"]
      by (simp add: snapshot_def)
  qed
  show ?thesis
    using run_snapshot[of s es] step_snapshot[of s ev] c by blast
qed

theorem snapshot_written_once_witness:
  "snapshot demo_page = (None, None)
   \<and> snapshot (run [Message (toggle True) (Some ''abcdefghijklmnop''), Frame] demo_page) =
       (Some 5, Some (10, 20))
   \<and> zoom (heap (run [SetHeap (\<lambda>a. demo_map 8), Message (toggle False) (Some ''abcdefghijklmnop''),
                      SetHeap (\<lambda>a. demo_map 8)]
        (run [Message (toggle True) (Some ''abcdefghijklmnop''), Frame] demo_page)) 3) = 8
   \<and> snapshot (run [SetHeap (\<lambda>a. demo_map 8), Message (toggle False) (Some ''abcdefghijklmnop''),
                    SetHeap (\<lambda>a. demo_map 8), Message (toggle True) (Some ''abcdefghijklmnop''),
                    Frame]
        (run [Message (toggle True) (Some ''abcdefghijklmnop''), Frame] demo_page)) =
       (Some 5, Some (10, 20))"
proof -
  let ?s = "run [Message (toggle True) (Some ''abcdefghijklmnop''), Frame] demo_page"
  have g: "snapshot demo_page = (None, None)" "snapshot ?s = (Some 5, Some (10, 20))"
    by (simp_all add: demo_defs script_defs)
  have z: "zoom (heap (run [SetHeap (\<lambda>a. demo_map 8), Message (toggle False) (Some ''abcdefghijklmnop''),
                      SetHeap (\<lambda>a. demo_map 8)] ?s) 3) = 8"
    by (simp add: demo_defs script_defs)
  note th = snapshot_written_once[of ?s
      "[SetHeap (\<lambda>a. demo_map 8), Message (toggle False) (Some ''abcdefghijklmnop''),
        SetHeap (\<lambda>a. demo_map 8), Message (toggle True) (Some ''abcdefghijklmnop''), Frame]"]
  show ?thesis
    using th g z by simp
qed

section \<open>removeFullMapHeight has no guard\<close>

lemma map_ready_same_nodes:
  "map_ready s e a \<Longrightarrow> nodes (document t) = nodes (document s) \<Longrightarrow> window t = window s \<Longrightarrow>
   domCache_map t = domCache_map s \<or> domCache_map t = Some (nid e) \<Longrightarrow> map_ready t e a"
  by (auto simp add: map_ready_def querySelector_def element_of_def)

lemma restoreViewport_nothing_stored:
  "orig_zoom (originalStyles s) = None \<Longrightarrow> restoreViewport s = s"
  by (simp add: restoreViewport_def)

lemma classList_remove_gone: "c \<notin> set (classList_remove c cs)"
  by (simp add: classList_remove_def)

lemma classList_remove_absent: "c \<notin> set cs \<Longrightarrow> classList_remove c cs = cs"
  by (simp add: classList_remove_def)

lemma body_same_update: "body d = Some cs \<Longrightarrow> d\<lparr>body := Some cs\<rparr> = d"
  by (cases d) simp

lemma not_applied_update: "\<not> stylesApplied s \<Longrightarrow> s\<lparr>document := document s, stylesApplied := False\<rparr> = s"
  by (cases s) simp

text \<open>
  Claim C5. \<open>removeFullMapHeight\<close> has no test of \<open>stylesApplied\<close>, in either
  script. On the listing page after one cycle of apply and remove, with the user zoomed
  in to 8, the styles are not applied and a second remove sets the zoom back to 5.
\<close>

theorem remove_unguarded_counterexample:
  "\<not> stylesApplied revisited_page
   \<and> style_count (document revisited_page) = 0
   \<and> body (document revisited_page) = Some []
   \<and> zoom (heap revisited_page 3) = 8
   \<and> zoom (heap (snd (removeFullMapHeight2 revisited_page)) 3) = 5
   \<and> zoom (heap (snd (removeFullMapHeight revisited_page)) 3) = 5"
  by (simp add: demo_defs script_defs script2_defs)

lemma restoreViewport_touches:
  assumes "resolves s e a" and "unique_ids (document s)"
    and "orig_zoom (originalStyles s) \<noteq> None" and "is_function (heap s a) SetZoom"
  shows "heap (restoreViewport s) = (heap s)(a := restore_try (originalStyles s) (heap s a))"
  unfolding restoreViewport_resolves[OF assms(1,2,3)] using assms(4) by simp

lemma not_applied_same: "\<not> stylesApplied s \<Longrightarrow> s\<lparr>stylesApplied := False\<rparr> = s"
  by (cases s) simp

lemma count_zero_no_style:
  assumes "style_count (document s) = 0"
  shows "getElementById STYLE_ID (document s) = None"
proof (cases "getElementById STYLE_ID (document s)")
  case None
  then show ?thesis .
next
  case (Some n)
  then have "n \<in> set (filter (\<lambda>n. el_id n = STYLE_ID) (nodes (document s)))"
    by (auto simp add: getElementById_def dest: find_Some_holds)
  with assms show ?thesis by (simp add: style_count_def)
qed

lemma removeFullMapHeight_effects:
  assumes "style_count (document s) \<le> 1"
  shows "fst (removeFullMapHeight s) = Normal"
    and "style_count (document (snd (removeFullMapHeight s))) = 0"
    and "\<not> stylesApplied (snd (removeFullMapHeight s))"
    and "orig_zoom (originalStyles s) = None \<Longrightarrow> heap (snd (removeFullMapHeight s)) = heap s"
    and "orig_zoom (originalStyles s) \<noteq> None \<Longrightarrow> unique_ids (document s) \<Longrightarrow> resolves s e a \<Longrightarrow>
         el_id e \<noteq> STYLE_ID \<Longrightarrow> is_function (heap s a) SetZoom \<Longrightarrow>
         heap (snd (removeFullMapHeight s)) = (heap s)(a := restore_try (originalStyles s) (heap s a))"
    and "\<not> stylesApplied s \<Longrightarrow> style_count (document s) = 0 \<Longrightarrow>
         orig_zoom (originalStyles s) = None \<Longrightarrow> snd (removeFullMapHeight s) = s"
proof -
  let ?s1 = "case getElementById STYLE_ID (document s) of
               Some n \<Rightarrow> s\<lparr>document := remove_node n (document s)\<rparr> | None \<Rightarrow> s"
  let ?s2 = "?s1\<lparr>stylesApplied := False\<rparr>"
  have eq: "removeFullMapHeight s = (Normal, restoreViewport ?s2)"
    by (simp add: removeFullMapHeight_def Let_def)
  have k: "originalStyles ?s2 = originalStyles s" "heap ?s2 = heap s"
    by (simp_all split: option.splits)
  show "fst (removeFullMapHeight s) = Normal" by (simp add: eq)
  show "style_count (document (snd (removeFullMapHeight s))) = 0"
    by (rule removeFullMapHeight_count[OF assms])
  show "\<not> stylesApplied (snd (removeFullMapHeight s))"
    by (simp add: eq restoreViewport_frame)
  show "heap (snd (removeFullMapHeight s)) = heap s" if "orig_zoom (originalStyles s) = None"
    using that k restoreViewport_nothing_stored[of ?s2] by (simp add: eq)
  show "heap (snd (removeFullMapHeight s)) = (heap s)(a := restore_try (originalStyles s) (heap s a))"
    if h: "orig_zoom (originalStyles s) \<noteq> None" "unique_ids (document s)" "resolves s e a"
      "el_id e \<noteq> STYLE_ID" "is_function (heap s a) SetZoom"
  proof -
    have r: "resolves ?s2 e a \<and> unique_ids (document ?s2)"
    proof (cases "getElementById STYLE_ID (document s)")
      case None
      with h(2) show ?thesis
        using resolves_same_nodes[OF h(3), of "s\<lparr>stylesApplied := False\<rparr>"] by simp
    next
      case (Some n)
      have "resolves (s\<lparr>document := remove_node n (document s), stylesApplied := False\<rparr>) e a"
        "unique_ids (document (s\<lparr>document := remove_node n (document s), stylesApplied := False\<rparr>))"
        by (rule resolves_remove_style[OF h(3,2,4) Some]; simp)+
      with Some show ?thesis by simp
    qed
    have z: "orig_zoom (originalStyles ?s2) \<noteq> None" "is_function (heap ?s2 a) SetZoom"
      using h(1,5) k by simp_all
    show ?thesis
      using r restoreViewport_touches[of ?s2 e a] z k by (simp add: eq)
  qed
  show "snd (removeFullMapHeight s) = s"
    if h: "\<not> stylesApplied s" "style_count (document s) = 0" "orig_zoom (originalStyles s) = None"
  proof -
    have "?s2 = s"
      using count_zero_no_style[OF h(2)] h(1) by (simp add: not_applied_same)
    then show ?thesis
      using restoreViewport_nothing_stored[of s] h(3) by (simp add: eq)
  qed
qed

lemma removeFullMapHeight2_effects:
  assumes "style_count (document s) \<le> 1" and "body (document s) = Some cs"
  shows "fst (removeFullMapHeight2 s) = Normal"
    and "style_count (document (snd (removeFullMapHeight2 s))) = 0"
    and "body (document (snd (removeFullMapHeight2 s))) = Some (classList_remove MARKER_CLASS cs)"
    and "\<not> stylesApplied (snd (removeFullMapHeight2 s))"
    and "orig_zoom (originalStyles s) = None \<Longrightarrow> heap (snd (removeFullMapHeight2 s)) = heap s"
    and "orig_zoom (originalStyles s) \<noteq> None \<Longrightarrow> unique_ids (document s) \<Longrightarrow> resolves s e a \<Longrightarrow>
         el_id e \<noteq> STYLE_ID \<Longrightarrow> is_function (heap s a) SetZoom \<Longrightarrow>
         heap (snd (removeFullMapHeight2 s)) = (heap s)(a := restore_try (originalStyles s) (heap s a))"
    and "\<not> stylesApplied s \<Longrightarrow> style_count (document s) = 0 \<Longrightarrow> MARKER_CLASS \<notin> set cs \<Longrightarrow>
         orig_zoom (originalStyles s) = None \<Longrightarrow> snd (removeFullMapHeight2 s) = s"
proof -
  let ?s1 = "case getElementById STYLE_ID (document s) of
               Some n \<Rightarrow> s\<lparr>document := remove_node n (document s)\<rparr> | None \<Rightarrow> s"
  let ?s2 = "?s1\<lparr>document := (document ?s1)\<lparr>body := Some (classList_remove MARKER_CLASS cs)\<rparr>,
                 stylesApplied := False\<rparr>"
  have b1: "body (document ?s1) = Some cs"
    using assms(2) by (simp add: remove_node_def split: option.splits)
  have eq: "removeFullMapHeight2 s = (Normal, restoreViewport ?s2)"
    using b1 by (simp add: removeFullMapHeight2_def Let_def)
  have c1: "style_count (document ?s1) = 0"
    using assms(1) by (auto simp add: remove_style_count no_style_count split: option.splits)
  have k: "originalStyles ?s2 = originalStyles s" "heap ?s2 = heap s"
    by (simp_all split: option.splits)
  show "fst (removeFullMapHeight2 s) = Normal" by (simp add: eq)
  show "style_count (document (snd (removeFullMapHeight2 s))) = 0"
    using c1 by (simp add: eq restoreViewport_frame style_count_def)
  show "body (document (snd (removeFullMapHeight2 s))) = Some (classList_remove MARKER_CLASS cs)"
    by (simp add: eq restoreViewport_frame)
  show "\<not> stylesApplied (snd (removeFullMapHeight2 s))"
    by (simp add: eq restoreViewport_frame)
  show "heap (snd (removeFullMapHeight2 s)) = heap s" if "orig_zoom (originalStyles s) = None"
    using that k restoreViewport_nothing_stored[of ?s2] by (simp add: eq)
  show "heap (snd (removeFullMapHeight2 s)) = (heap s)(a := restore_try (originalStyles s) (heap s a))"
    if h: "orig_zoom (originalStyles s) \<noteq> None" "unique_ids (document s)" "resolves s e a"
      "el_id e \<noteq> STYLE_ID" "is_function (heap s a) SetZoom"
  proof -
    have r1: "resolves ?s1 e a \<and> unique_ids (document ?s1)"
    proof (cases "getElementById STYLE_ID (document s)")
      case None
      with h(2,3) show ?thesis by simp
    next
      case (Some n)
      have "resolves (s\<lparr>document := remove_node n (document s)\<rparr>) e a"
        "unique_ids (document (s\<lparr>document := remove_node n (document s)\<rparr>))"
        by (rule resolves_remove_style[OF h(3,2,4) Some]; simp)+
      with Some show ?thesis by simp
    qed
    from r1 have r1a: "resolves ?s1 e a" and r1b: "unique_ids (document ?s1)"
      by blast+
    have r2: "resolves ?s2 e a"
      by (rule resolves_same_nodes[OF r1a]) simp_all
    have q2: "unique_ids (document ?s2)"
      by (rule unique_ids_same_nodes[OF r1b]) simp
    have z: "orig_zoom (originalStyles ?s2) \<noteq> None" "is_function (heap ?s2 a) SetZoom"
      using h(1,5) k by simp_all
    show ?thesis
      using restoreViewport_touches[OF r2 q2 z] k by (simp only: eq snd_conv)
  qed
  show "snd (removeFullMapHeight2 s) = s"
    if h: "\<not> stylesApplied s" "style_count (document s) = 0" "MARKER_CLASS \<notin> set cs"
      "orig_zoom (originalStyles s) = None"
  proof -
    have "?s2 = s"
      using count_zero_no_style[OF h(2)] h(1,3) assms(2)
      by (simp add: classList_remove_absent body_same_update not_applied_update)
    then show ?thesis
      using restoreViewport_nothing_stored[of s] h(4) by (simp add: eq)
  qed
qed


text \<open>
  Claim C5, amended. \<open>removeFullMapHeight\<close> has no test of \<open>stylesApplied\<close>, in
  either script. In every state with at most one stylesheet of the reserved identifier
  (for the second script: whenever \<open>document.body\<close> exists), applied or not, it ends
  normally, deletes the singleton stylesheet, clears the marker class of the body (second
  script; src/content.js has no marker class) and clears \<open>stylesApplied\<close>. It calls
  the viewport restore only if a zoom is stored: with none stored no map object is
  touched; with one stored, when the script resolves a map whose \<open>setZoom\<close> is a
  function, from a container that is not the stylesheet element in a document of
  distinct element identities, the restore runs on that map and on no other. If the
  styles are not applied, no stylesheet (and no marker class) is present and no zoom is
  stored, it changes nothing.
\<close>

theorem remove_effects:
  assumes "style_count (document s) \<le> 1"
  shows
    "fst (removeFullMapHeight s) = Normal
     \<and> style_count (document (snd (removeFullMapHeight s))) = 0
     \<and> \<not> stylesApplied (snd (removeFullMapHeight s))
     \<and> (orig_zoom (originalStyles s) = None \<longrightarrow> heap (snd (removeFullMapHeight s)) = heap s)
     \<and> (orig_zoom (originalStyles s) \<noteq> None \<and> unique_ids (document s) \<and> resolves s e a \<and>
         el_id e \<noteq> STYLE_ID \<and> is_function (heap s a) SetZoom \<longrightarrow>
          heap (snd (removeFullMapHeight s)) =
            (heap s)(a := restore_try (originalStyles s) (heap s a)))
     \<and> (\<not> stylesApplied s \<and> style_count (document s) = 0 \<and>
         orig_zoom (originalStyles s) = None \<longrightarrow> snd (removeFullMapHeight s) = s)
     \<and> (body (document s) = Some cs \<longrightarrow>
          fst (removeFullMapHeight2 s) = Normal
          \<and> style_count (document (snd (removeFullMapHeight2 s))) = 0
          \<and> body (document (snd (removeFullMapHeight2 s))) = Some (classList_remove MARKER_CLASS cs)
          \<and> MARKER_CLASS \<notin> set (classList_remove MARKER_CLASS cs)
          \<and> \<not> stylesApplied (snd (removeFullMapHeight2 s))
          \<and> (orig_zoom (originalStyles s) = None \<longrightarrow> heap (snd (removeFullMapHeight2 s)) = heap s)
          \<and> (orig_zoom (originalStyles s) \<noteq> None \<and> unique_ids (document s) \<and> resolves s e a \<and>
              el_id e \<noteq> STYLE_ID \<and> is_function (heap s a) SetZoom \<longrightarrow>
               heap (snd (removeFullMapHeight2 s)) =
                 (heap s)(a := restore_try (originalStyles s) (heap s a)))
          \<and> (\<not> stylesApplied s \<and> style_count (document s) = 0 \<and> MARKER_CLASS \<notin> set cs \<and>
              orig_zoom (originalStyles s) = None \<longrightarrow> snd (removeFullMapHeight2 s) = s))"
proof -
  note a = removeFullMapHeight_effects[OF assms]
  have b: "body (document s) = Some cs \<longrightarrow>
          fst (removeFullMapHeight2 s) = Normal
          \<and> style_count (document (snd (removeFullMapHeight2 s))) = 0
          \<and> body (document (snd (removeFullMapHeight2 s))) = Some (classList_remove MARKER_CLASS cs)
          \<and> MARKER_CLASS \<notin> set (classList_remove MARKER_CLASS cs)
          \<and> \<not> stylesApplied (snd (removeFullMapHeight2 s))
          \<and> (orig_zoom (originalStyles s) = None \<longrightarrow> heap (snd (removeFullMapHeight2 s)) = heap s)
          \<and> (orig_zoom (originalStyles s) \<noteq> None \<and> unique_ids (document s) \<and> resolves s e a \<and>
              el_id e \<noteq> STYLE_ID \<and> is_function (heap s a) SetZoom \<longrightarrow>
               heap (snd (removeFullMapHeight2 s)) =
                 (heap s)(a := restore_try (originalStyles s) (heap s a)))
          \<and> (\<not> stylesApplied s \<and> style_count (document s) = 0 \<and> MARKER_CLASS \<notin> set cs \<and>
              orig_zoom (originalStyles s) = None \<longrightarrow> snd (removeFullMapHeight2 s) = s)"
  proof
    assume c: "body (document s) = Some cs"
    note b = removeFullMapHeight2_effects[OF assms c]
    show "fst (removeFullMapHeight2 s) = Normal
          \<and> style_count (document (snd (removeFullMapHeight2 s))) = 0
          \<and> body (document (snd (removeFullMapHeight2 s))) = Some (classList_remove MARKER_CLASS cs)
          \<and> MARKER_CLASS \<notin> set (classList_remove MARKER_CLASS cs)
          \<and> \<not> stylesApplied (snd (removeFullMapHeight2 s))
          \<and> (orig_zoom (originalStyles s) = None \<longrightarrow> heap (snd (removeFullMapHeight2 s)) = heap s)
          \<and> (orig_zoom (originalStyles s) \<noteq> None \<and> unique_ids (document s) \<and> resolves s e a \<and>
              el_id e \<noteq> STYLE_ID \<and> is_function (heap s a) SetZoom \<longrightarrow>
               heap (snd (removeFullMapHeight2 s)) =
                 (heap s)(a := restore_try (originalStyles s) (heap s a)))
          \<and> (\<not> stylesApplied s \<and> style_count (document s) = 0 \<and> MARKER_CLASS \<notin> set cs \<and>
              orig_zoom (originalStyles s) = None \<longrightarrow> snd (removeFullMapHeight2 s) = s)"
      using b(1,2,3,4) b(5) b(6)[of e a] b(7) classList_remove_gone[of MARKER_CLASS cs]
      by blast
  qed
  show ?thesis
    using a(1,2,3) a(4) a(5)[of e a] a(6) b by blast
qed

theorem remove_effects_witness:
  "stylesApplied (step Frame (snd (applyFullMapHeight2 demo_page)))
   \<and> body (document (step Frame (snd (applyFullMapHeight2 demo_page)))) = Some [MARKER_CLASS]
   \<and> style_count (document (step Frame (snd (applyFullMapHeight2 demo_page)))) = 1
   \<and> zoom (heap (step Frame (snd (applyFullMapHeight2 demo_page))) 3) = 9 / 2
   \<and> fst (removeFullMapHeight2 (step Frame (snd (applyFullMapHeight2 demo_page)))) = Normal
   \<and> style_count (document (snd (removeFullMapHeight2
        (step Frame (snd (applyFullMapHeight2 demo_page)))))) = 0
   \<and> body (document (snd (removeFullMapHeight2
        (step Frame (snd (applyFullMapHeight2 demo_page)))))) = Some []
   \<and> \<not> stylesApplied (snd (removeFullMapHeight2 (step Frame (snd (applyFullMapHeight2 demo_page)))))
   \<and> zoom (heap (snd (removeFullMapHeight2 (step Frame (snd (applyFullMapHeight2 demo_page))))) 3) = 5
   \<and> style_count (document (snd (removeFullMapHeight
        (step Frame (snd (applyFullMapHeight2 demo_page)))))) = 0
   \<and> \<not> stylesApplied (snd (removeFullMapHeight (step Frame (snd (applyFullMapHeight2 demo_page)))))
   \<and> zoom (heap (snd (removeFullMapHeight (step Frame (snd (applyFullMapHeight2 demo_page))))) 3) = 5
   \<and> snd (removeFullMapHeight demo_page) = demo_page
   \<and> snd (removeFullMapHeight2 demo_page) = demo_page"
proof -
  let ?s = "step Frame (snd (applyFullMapHeight2 demo_page))"
  have h: "style_count (document ?s) \<le> 1" "body (document ?s) = Some [MARKER_CLASS]"
    by (simp_all add: demo_defs script_defs script2_defs)
  have g: "stylesApplied ?s" "style_count (document ?s) = 1" "zoom (heap ?s 3) = 9 / 2"
    "orig_zoom (originalStyles ?s) \<noteq> None" "is_function (heap ?s 3) SetZoom"
    "classList_remove MARKER_CLASS [MARKER_CLASS] = []"
    "zoom (restore_try (originalStyles ?s) (heap ?s 3)) = 5"
    "unique_ids (document ?s)" "resolves ?s demo_element 3" "el_id demo_element \<noteq> STYLE_ID"
    by (simp_all add: unique_ids_def resolves_def demo_defs script_defs script2_defs)
  have h0: "style_count (document demo_page) \<le> 1" "body (document demo_page) = Some []"
    "\<not> stylesApplied demo_page" "style_count (document demo_page) = 0"
    "MARKER_CLASS \<notin> set []" "orig_zoom (originalStyles demo_page) = None"
    by (simp_all add: demo_defs script_defs)
  note th = remove_effects[OF h(1), of demo_element 3 "[MARKER_CLASS]"]
  note th0 = remove_effects[OF h0(1), of demo_element 3 "[]"]
  from th g h have a: "heap (snd (removeFullMapHeight ?s)) =
      (heap ?s)(3 := restore_try (originalStyles ?s) (heap ?s 3))"
    and b: "heap (snd (removeFullMapHeight2 ?s)) =
      (heap ?s)(3 := restore_try (originalStyles ?s) (heap ?s 3))"
    by blast+
  have a': "zoom (heap (snd (removeFullMapHeight ?s)) 3) = 5"
    and b': "zoom (heap (snd (removeFullMapHeight2 ?s)) 3) = 5"
    using g(7) by (simp_all only: a b fun_upd_same)
  from th h have c: "fst (removeFullMapHeight2 ?s) = Normal"
    "style_count (document (snd (removeFullMapHeight2 ?s))) = 0"
    "body (document (snd (removeFullMapHeight2 ?s))) = Some (classList_remove MARKER_CLASS [MARKER_CLASS])"
    "\<not> stylesApplied (snd (removeFullMapHeight2 ?s))"
    "style_count (document (snd (removeFullMapHeight ?s))) = 0"
    "\<not> stylesApplied (snd (removeFullMapHeight ?s))"
    by blast+
  from th0 h0 have d: "snd (removeFullMapHeight demo_page) = demo_page"
    "snd (removeFullMapHeight2 demo_page) = demo_page"
    by blast+
  show ?thesis
    using g(1,2,3) h(2) a' b' c d by (simp only: g(6)) blast
qed

section \<open>applyFullMapHeight and its guards\<close>

text \<open>
  Claim C3. The page test of src/content.js is not \<open>isMapViewPage\<close>: \<open>init\<close>
  tests whether the address contains \<open>inaturalist.org/observations\<close>. On
  \<open>/observations/123\<close> and \<open>/observations/someuser\<close> that test is true, where
  \<open>isMapViewPage\<close> of the second content script is false, and on such a page with a
  map container \<open>init\<close> queues the call that applies the styles.
\<close>

theorem content_js_page_test_deeper_paths:
  "pathname (location item_page) = ''/observations/123''
   \<and> hrefIsObservations (location item_page)
   \<and> hrefIsObservations
        \<lparr>href = ''https://www.inaturalist.org/observations/someuser'',
         pathname = ''/observations/someuser'', search = []\<rparr>
   \<and> \<not> isMapViewPage (location item_page)
   \<and> \<not> isMapViewPage
        \<lparr>href = ''https://www.inaturalist.org/observations/someuser'',
         pathname = ''/observations/someuser'', search = []\<rparr>
   \<and> frames (snd (init False (demo_page\<lparr>location := location item_page\<rparr>))) = [InitApply]
   \<and> stylesApplied (step Frame (snd (init False (demo_page\<lparr>location := location item_page\<rparr>))))
   \<and> style_count (document
        (step Frame (snd (init False (demo_page\<lparr>location := location item_page\<rparr>))))) = 1"
  by (simp add: demo_defs script_defs init_def loadUserPreferences_def initApply_def
      mainContainer_def hrefIsObservations_def str_includes_def isMapViewPage_def
      sublist_code(3) prefix_code(2))

lemma applyFullMapHeight2_guarded:
  "stylesApplied s \<or> \<not> isMapViewPage (location s) \<or>
   querySelector map_or_leaflet_container (document s) = None \<Longrightarrow>
   applyFullMapHeight2 s = (Normal, s)"
  by (auto simp add: applyFullMapHeight2_def)

text \<open>
  Claim C4. \<open>applyFullMapHeight\<close> of the second content script returns at once on a
  page that is not the listing page or has no map container (\<open>applyFullMapHeight2_guarded\<close>).
  \<open>applyFullMapHeight\<close> of src/content.js tests \<open>stylesApplied\<close> only: on the
  observation page \<open>/observations/123\<close>, which has no map container, a toggle message
  and the callback of the preference store both inject the stylesheet, set the flag and
  queue the frame callback. Only the call \<open>init\<close> queues is kept back there, by the test
  for the map container at that call site.
\<close>

theorem content_js_apply_unguarded:
  "\<not> isMapViewPage (location item_page)
   \<and> querySelector map_or_leaflet_container (document item_page) = None
   \<and> \<not> stylesApplied item_page
   \<and> style_count (document item_page) = 0
   \<and> fst (onMessage (toggle True) (Some ''abcdefghijklmnop'') item_page) = Success
   \<and> stylesApplied (snd (onMessage (toggle True) (Some ''abcdefghijklmnop'') item_page))
   \<and> style_count (document (snd (onMessage (toggle True) (Some ''abcdefghijklmnop'') item_page))) = 1
   \<and> frames (snd (onMessage (toggle True) (Some ''abcdefghijklmnop'') item_page)) = [PostPaint]
   \<and> stylesApplied (step (StorageResult False None) (item_page\<lparr>storagePending := True\<rparr>))
   \<and> style_count (document (step (StorageResult False None)
        (item_page\<lparr>storagePending := True\<rparr>))) = 1
   \<and> hrefIsObservations (location item_page)
   \<and> frames (snd (init False item_page)) = [InitApply]
   \<and> \<not> stylesApplied (step Frame (snd (init False item_page)))
   \<and> stylesApplied (step (StorageResult False None) (snd (init False item_page)))
   \<and> onMessage2 (toggle True) (Some ''abcdefghijklmnop'') item_page =
        (Success, item_page\<lparr>fullMapHeight := JBool True\<rparr>)"
  by (simp add: demo_defs script_defs script2_defs init_def loadUserPreferences_def
      initApply_def mainContainer_def hrefIsObservations_def str_includes_def
      sublist_code(3) prefix_code(2))

end
